theory Spec2Isabelle
  imports Main
begin

section \<open>Recipe search API: cache-aside search, pagination and click tracking\<close>

text \<open>
  A shallow embedding of \<^verbatim>\<open>src/api.py\<close>. The module talks to three external
  collaborators through module-level singletons: the Redis client, the embeddings model
  and the search index behind the Redis client. They are made explicit here: the state
  of the Redis server and the list of calls issued so far form a \<open>world\<close> that every
  function takes and returns, and the behaviour of the collaborators is a record
  \<open>deps\<close> that every function takes as its first argument. A Python exception is the
  \<open>Inl\<close> branch of a sum. Calls to the logger have no effect on results and are left
  out.
\<close>

subsection \<open>Python values\<close>

text \<open>
  Only exceptions deriving from \<^verbatim>\<open>Exception\<close> are modelled. The code tells one
  class apart, \<^verbatim>\<open>redis.exceptions.OutOfMemoryError\<close>; every other exception is
  an \<open>OtherException\<close>. The string is what \<^verbatim>\<open>str(e)\<close> returns.
\<close>

datatype exn = OutOfMemoryError string | OtherException string

fun exn_str :: "exn \<Rightarrow> string" where
  "exn_str (OutOfMemoryError m) = m"
| "exn_str (OtherException m) = m"

text \<open>
  A result item is a Python dict with string keys and string values, kept as an
  association list in insertion order. The embedding of a query is opaque to the code:
  it is only handed from the encoder to the search call, so it is kept as the byte
  buffer that \<^verbatim>\<open>np.array(..., dtype=np.float16).tobytes()\<close> produces.
\<close>

type_synonym pydict = "(string \<times> string) list"

type_synonym embedding = "nat list"

text \<open>
  A document returned by the search: \<^verbatim>\<open>getattr(doc, '$.title', default)\<close> reads an
  attribute that may be missing.
\<close>

record doc =
  doc_title :: "string option"
  doc_link :: "string option"

text \<open>
  Python's \<^verbatim>\<open>xs[start:stop]\<close> on a list: a negative index counts from the end,
  every index is clipped to the list, and an empty or inverted range is the empty list.
\<close>

definition py_slice :: "'a list \<Rightarrow> int \<Rightarrow> int \<Rightarrow> 'a list" where
  "py_slice xs start stop =
     (let n = int (length xs);
          lo = (if start < 0 then max (start + n) 0 else min start n);
          hi = (if stop < 0 then max (stop + n) 0 else min stop n)
      in take (nat (hi - lo)) (drop (nat lo) xs))"

subsection \<open>The external collaborators\<close>

text \<open>
  The Redis keyspace holds strings (the cache entries) and hashes (the click records,
  whose fields hold integers).
\<close>

datatype rvalue = RString string | RHash "string \<rightharpoonup> int"

datatype call =
    Encode string
  | Search embedding
  | Get string
  | Setex string int string
  | Exists string
  | Hincrby string string int
  | Hset string "(string \<times> int) list"

record world =
  store :: "string \<rightharpoonup> rvalue"
  ttl :: "string \<rightharpoonup> int"
  calls :: "call list"

text \<open>
  \<open>encoder\<close> is \<^verbatim>\<open>EMBEDDINGS_MODEL.encode([query_text]).tolist()[0]\<close> followed by
  the conversion to bytes, \<open>backend_search\<close> is
  \<^verbatim>\<open>REDIS_CLIENT.ft("idx:recipes").search(QUERY, ...).docs\<close>; either may raise.
  \<open>fault\<close> decides, from the keyspace and the command, whether a Redis command fails
  (connection lost, memory exhausted, command rejected) and with which exception.
  \<open>py_str\<close> and \<open>py_eval\<close> are Python's built-in \<^verbatim>\<open>str\<close> and \<^verbatim>\<open>eval\<close>
  on values of the annotated type \<^verbatim>\<open>List[dict]\<close>; \<^verbatim>\<open>eval\<close> may raise.
\<close>

record deps =
  encoder :: "string \<Rightarrow> exn + embedding"
  backend_search :: "embedding \<Rightarrow> exn + doc list"
  fault :: "(string \<rightharpoonup> rvalue) \<Rightarrow> call \<Rightarrow> exn option"
  py_str :: "pydict list \<Rightarrow> string"
  py_eval :: "string \<Rightarrow> exn + pydict list"

definition log_call :: "call \<Rightarrow> world \<Rightarrow> world" where
  "log_call c w = w\<lparr>calls := calls w @ [c]\<rparr>"

definition wrongtype :: exn where
  "wrongtype = OtherException ''WRONGTYPE Operation against a key holding the wrong kind of value''"

definition model_encode :: "deps \<Rightarrow> string \<Rightarrow> world \<Rightarrow> (exn + embedding) \<times> world" where
  "model_encode d text w = (encoder d text, log_call (Encode text) w)"

definition ft_search :: "deps \<Rightarrow> embedding \<Rightarrow> world \<Rightarrow> (exn + doc list) \<times> world" where
  "ft_search d v w = (backend_search d v, log_call (Search v) w)"

definition redis_get :: "deps \<Rightarrow> string \<Rightarrow> world \<Rightarrow> (exn + string option) \<times> world" where
  "redis_get d k w =
     (let w' = log_call (Get k) w in
      case fault d (store w) (Get k) of
        Some e \<Rightarrow> (Inl e, w')
      | None \<Rightarrow>
          (case store w k of
             None \<Rightarrow> (Inr None, w')
           | Some (RString s) \<Rightarrow> (Inr (Some s), w')
           | Some (RHash h) \<Rightarrow> (Inl wrongtype, w')))"

definition redis_setex :: "deps \<Rightarrow> string \<Rightarrow> int \<Rightarrow> string \<Rightarrow> world \<Rightarrow> (exn + unit) \<times> world" where
  "redis_setex d k t v w =
     (let w' = log_call (Setex k t v) w in
      case fault d (store w) (Setex k t v) of
        Some e \<Rightarrow> (Inl e, w')
      | None \<Rightarrow>
          if t \<le> 0 then (Inl (OtherException ''invalid expire time in setex''), w')
          else (Inr (), w'\<lparr>store := (store w)(k \<mapsto> RString v), ttl := (ttl w)(k \<mapsto> t)\<rparr>))"

definition redis_exists :: "deps \<Rightarrow> string \<Rightarrow> world \<Rightarrow> (exn + int) \<times> world" where
  "redis_exists d k w =
     (let w' = log_call (Exists k) w in
      case fault d (store w) (Exists k) of
        Some e \<Rightarrow> (Inl e, w')
      | None \<Rightarrow> (Inr (if store w k = None then 0 else 1), w'))"

definition redis_hincrby :: "deps \<Rightarrow> string \<Rightarrow> string \<Rightarrow> int \<Rightarrow> world \<Rightarrow> (exn + int) \<times> world" where
  "redis_hincrby d k f n w =
     (let w' = log_call (Hincrby k f n) w in
      case fault d (store w) (Hincrby k f n) of
        Some e \<Rightarrow> (Inl e, w')
      | None \<Rightarrow>
          (case store w k of
             None \<Rightarrow> (Inr n, w'\<lparr>store := (store w)(k \<mapsto> RHash [f \<mapsto> n])\<rparr>)
           | Some (RString s) \<Rightarrow> (Inl wrongtype, w')
           | Some (RHash h) \<Rightarrow>
               (let v = (case h f of None \<Rightarrow> 0 | Some c \<Rightarrow> c) + n
                in (Inr v, w'\<lparr>store := (store w)(k \<mapsto> RHash (h(f \<mapsto> v)))\<rparr>))))"

definition redis_hset :: "deps \<Rightarrow> string \<Rightarrow> (string \<times> int) list \<Rightarrow> world \<Rightarrow> (exn + unit) \<times> world" where
  "redis_hset d k mapping w =
     (let w' = log_call (Hset k mapping) w in
      case fault d (store w) (Hset k mapping) of
        Some e \<Rightarrow> (Inl e, w')
      | None \<Rightarrow>
          (case store w k of
             None \<Rightarrow> (Inr (), w'\<lparr>store := (store w)(k \<mapsto> RHash (map_of mapping))\<rparr>)
           | Some (RString s) \<Rightarrow> (Inl wrongtype, w')
           | Some (RHash h) \<Rightarrow>
               (Inr (), w'\<lparr>store := (store w)(k \<mapsto> RHash (h ++ map_of mapping))\<rparr>)))"

subsection \<open>Global variables and models\<close>

definition CACHE_EXPIRATION :: int where
  "CACHE_EXPIRATION = 3"

record ClickData =
  query :: string
  link :: string

subsection \<open>Helper functions\<close>

definition get_cached_results :: "deps \<Rightarrow> string \<Rightarrow> world \<Rightarrow> (exn + pydict list option) \<times> world" where
  "get_cached_results d query_text w =
     (let cache_key = ''search_cache:'' @ query_text in
      case redis_get d cache_key w of
        (Inl e, w') \<Rightarrow> (Inl e, w')
      | (Inr None, w') \<Rightarrow> (Inr None, w')
      | (Inr (Some cached_results), w') \<Rightarrow>
          if cached_results \<noteq> [] then
            (case py_eval d cached_results of
               Inl e \<Rightarrow> (Inl e, w')
             | Inr v \<Rightarrow> (Inr (Some v), w'))
          else (Inr None, w'))"

definition cache_results :: "deps \<Rightarrow> string \<Rightarrow> pydict list \<Rightarrow> world \<Rightarrow> (exn + unit) \<times> world" where
  "cache_results d query_text results w =
     (let cache_key = ''search_cache:'' @ query_text in
      case redis_setex d cache_key CACHE_EXPIRATION (py_str d results) w of
        (Inl e, w') \<Rightarrow> (Inl e, w')
      | (Inr u, w') \<Rightarrow> (Inr u, w'))"

text \<open>The body of the loop over the documents, and the loop.\<close>

definition doc_item :: "doc \<Rightarrow> pydict" where
  "doc_item dc =
     (let title = (case doc_title dc of None \<Rightarrow> ''No title available'' | Some t \<Rightarrow> t);
          lnk = (case doc_link dc of None \<Rightarrow> ''No link available'' | Some l \<Rightarrow> l)
      in [(''title'', title), (''link'', lnk)])"

fun collect_results :: "pydict list \<Rightarrow> doc list \<Rightarrow> pydict list" where
  "collect_results results_list [] = results_list"
| "collect_results results_list (dc # result_docs) =
     collect_results (results_list @ [doc_item dc]) result_docs"

text \<open>
  The part of \<^verbatim>\<open>get_recipes_by_query\<close> after the cache lookup ("If no cache,
  perform the search"): encode, search, build the list, cache it, paginate.
\<close>

definition search_and_cache :: "deps \<Rightarrow> string \<Rightarrow> int \<Rightarrow> int \<Rightarrow> world \<Rightarrow> (exn + pydict list) \<times> world" where
  "search_and_cache d query_text page items_per_page w =
     (case model_encode d query_text w of
        (Inl e, w1) \<Rightarrow> (Inl e, w1)
      | (Inr encoded_query, w1) \<Rightarrow>
          (case ft_search d encoded_query w1 of
             (Inl e, w2) \<Rightarrow> (Inl e, w2)
           | (Inr result_docs, w2) \<Rightarrow>
               (let results_list = collect_results [] result_docs;
                    start_idx = (page - 1) * items_per_page;
                    end_idx = start_idx + items_per_page
                in case cache_results d query_text results_list w2 of
                     (Inl (OutOfMemoryError m), w3) \<Rightarrow> (Inr (py_slice results_list start_idx end_idx), w3)
                   | (Inl (OtherException m), w3) \<Rightarrow> (Inl (OtherException m), w3)
                   | (Inr u, w3) \<Rightarrow> (Inr (py_slice results_list start_idx end_idx), w3))))"

text \<open>Python truthiness of an \<^verbatim>\<open>Optional[List[dict]]\<close>: neither None nor empty.\<close>

fun truthy :: "'a list option \<Rightarrow> bool" where
  "truthy None = False"
| "truthy (Some []) = False"
| "truthy (Some (x # xs)) = True"

definition get_recipes_by_query :: "deps \<Rightarrow> string \<Rightarrow> int \<Rightarrow> int \<Rightarrow> world \<Rightarrow> (exn + pydict list) \<times> world" where
  "get_recipes_by_query d query_text page items_per_page w =
     (case get_cached_results d query_text w of
        (Inl e, w') \<Rightarrow> (Inl e, w')
      | (Inr cached_results, w') \<Rightarrow>
          if truthy cached_results then
            (let start_idx = (page - 1) * items_per_page;
                 end_idx = start_idx + items_per_page
             in (Inr (py_slice (the cached_results) start_idx end_idx), w'))
          else search_and_cache d query_text page items_per_page w')"

definition store_click_data :: "deps \<Rightarrow> string \<Rightarrow> string \<Rightarrow> world \<Rightarrow> (exn + unit) \<times> world" where
  "store_click_data d qry lnk w =
     (let click_key = ''clicks:'' @ qry @ '':'' @ lnk in
      case redis_exists d click_key w of
        (Inl e, w') \<Rightarrow> (Inl e, w')
      | (Inr r, w') \<Rightarrow>
          if r \<noteq> 0 then
            (case redis_hincrby d click_key ''count'' 1 w' of
               (Inl e, w'') \<Rightarrow> (Inl e, w'')
             | (Inr v, w'') \<Rightarrow> (Inr (), w''))
          else redis_hset d click_key [(''count'', 1)] w')"

subsection \<open>Endpoints\<close>

text \<open>
  The response bodies: \<^verbatim>\<open>{"status": ..., "message": ...}\<close> for \<^verbatim>\<open>/click\<close>, and
  for \<^verbatim>\<open>/recipes\<close> either \<^verbatim>\<open>{"error": ...}\<close> or
  \<^verbatim>\<open>{"query": ..., "page": ..., "results": ..., "has_more": ...}\<close>.
\<close>

datatype click_response = ClickResponse (status: string) (message: string)

datatype recipes_response =
    ErrorResponse string
  | RecipesResponse string int "pydict list" bool

definition record_click :: "deps \<Rightarrow> ClickData \<Rightarrow> world \<Rightarrow> click_response \<times> world" where
  "record_click d click_data w =
     (case store_click_data d (query click_data) (link click_data) w of
        (Inr u, w') \<Rightarrow> (ClickResponse ''success'' ''Click data recorded'', w')
      | (Inl e, w') \<Rightarrow> (ClickResponse ''error'' (exn_str e), w'))"

definition get_recipes :: "deps \<Rightarrow> string \<Rightarrow> int \<Rightarrow> world \<Rightarrow> recipes_response \<times> world" where
  "get_recipes d qry page w =
     (if page < 1 then (ErrorResponse ''Page number must be greater than 0'', w)
      else
        (case get_recipes_by_query d qry page 3 w of
           (Inl e, w') \<Rightarrow> (ErrorResponse (exn_str e), w')
         | (Inr results, w') \<Rightarrow> (RecipesResponse qry page results (length results = 3), w')))"

subsection \<open>Concrete collaborators\<close>

text \<open>
  The values that \<^verbatim>\<open>src/test.py\<close> mocks the collaborators with, used to run the
  functions on concrete inputs.
\<close>

definition MOCK_CACHED_RESULTS :: "pydict list" where
  "MOCK_CACHED_RESULTS =
     [[(''title'', ''Test Recipe 1''), (''link'', ''http://test1.com'')],
      [(''title'', ''Test Recipe 2''), (''link'', ''http://test2.com'')],
      [(''title'', ''Test Recipe 3''), (''link'', ''http://test3.com'')]]"

definition MOCK_REDIS_DOCS :: "doc list" where
  "MOCK_REDIS_DOCS =
     [\<lparr>doc_title = Some ''Test Recipe 1'', doc_link = Some ''http://test1.com''\<rparr>,
      \<lparr>doc_title = Some ''Test Recipe 2'', doc_link = Some ''http://test2.com''\<rparr>,
      \<lparr>doc_title = Some ''Test Recipe 3'', doc_link = Some ''http://test3.com''\<rparr>]"

text \<open>
  A stand-in for \<^verbatim>\<open>str\<close> and \<^verbatim>\<open>eval\<close> on the payloads the tests use: the empty
  list and the three mocked recipes.
\<close>

definition mock_str :: "pydict list \<Rightarrow> string" where
  "mock_str rs = (if rs = [] then ''[]'' else if rs = MOCK_CACHED_RESULTS then ''[recipe 1, recipe 2, recipe 3]'' else ''[...]'')"

definition mock_eval :: "string \<Rightarrow> exn + pydict list" where
  "mock_eval s =
     (if s = ''[]'' then Inr []
      else if s = ''[recipe 1, recipe 2, recipe 3]'' then Inr MOCK_CACHED_RESULTS
      else Inl (OtherException ''invalid syntax''))"

definition mock_deps :: deps where
  "mock_deps =
     \<lparr>encoder = (\<lambda>text. Inr [1, 2, 3]),
      backend_search = (\<lambda>v. Inr MOCK_REDIS_DOCS),
      fault = (\<lambda>s c. None),
      py_str = mock_str,
      py_eval = mock_eval\<rparr>"

definition setex_fails :: "exn \<Rightarrow> deps" where
  "setex_fails e = mock_deps\<lparr>fault := (\<lambda>s c. case c of Setex k t v \<Rightarrow> Some e | _ \<Rightarrow> None)\<rparr>"

definition encoder_down :: deps where
  "encoder_down = mock_deps\<lparr>encoder := (\<lambda>text. Inl (OtherException ''Test error''))\<rparr>"

definition backend_down :: deps where
  "backend_down = mock_deps\<lparr>backend_search := (\<lambda>v. Inl (OtherException ''Test error''))\<rparr>"

definition all_down :: deps where
  "all_down =
     \<lparr>encoder = (\<lambda>text. Inl (OtherException ''Test error'')),
      backend_search = (\<lambda>v. Inl (OtherException ''Test error'')),
      fault = (\<lambda>s c. Some (OtherException ''Connection refused'')),
      py_str = mock_str,
      py_eval = mock_eval\<rparr>"

definition empty_world :: world where
  "empty_world = \<lparr>store = Map.empty, ttl = Map.empty, calls = []\<rparr>"

definition cached_world :: "string \<Rightarrow> world" where
  "cached_world payload =
     \<lparr>store = [''search_cache:test query'' \<mapsto> RString payload],
      ttl = [''search_cache:test query'' \<mapsto> 3],
      calls = []\<rparr>"

section \<open>Properties\<close>

subsection \<open>Auxiliary facts\<close>

lemma collect_results_append: "collect_results acc docs = acc @ map doc_item docs"
  by (induction docs arbitrary: acc) simp_all

lemma collect_results_map: "collect_results [] docs = map doc_item docs"
  by (simp add: collect_results_append)

lemma py_slice_nat: "py_slice xs (int i) (int i + int m) = take m (drop i xs)"
proof (cases "i < length xs")
  case True
  show ?thesis
  proof (cases "i + m \<le> length xs")
    case True
    with \<open>i < length xs\<close> show ?thesis
      by (simp add: py_slice_def Let_def min_def)
  next
    case False
    with \<open>i < length xs\<close> have "nat (int (length xs) - int i) = length xs - i" by simp
    with False \<open>i < length xs\<close> show ?thesis
      by (simp add: py_slice_def Let_def min_def)
  qed
next
  case False
  then show ?thesis
    by (simp add: py_slice_def Let_def min_def)
qed

lemma py_slice_page:
  assumes "1 \<le> p" "0 \<le> n"
  shows "py_slice xs ((p - 1) * n) ((p - 1) * n + n) = take (nat n) (drop (nat ((p - 1) * n)) xs)"
proof -
  have s: "0 \<le> (p - 1) * n" using assms by simp
  from py_slice_nat [of xs "nat ((p - 1) * n)" "nat n"] s assms show ?thesis by simp
qed

lemma set_py_slice: "set (py_slice xs a b) \<subseteq> set xs"
proof -
  have "set (py_slice xs a b) \<subseteq> set (drop (nat (if a < 0 then max (a + int (length xs)) 0 else min a (int (length xs)))) xs)"
    unfolding py_slice_def Let_def by (rule set_take_subset)
  also have "\<dots> \<subseteq> set xs" by (rule set_drop_subset)
  finally show ?thesis .
qed

lemma store_log_call: "store (log_call c w) = store w"
  by (simp add: log_call_def)

lemma ttl_log_call: "ttl (log_call c w) = ttl w"
  by (simp add: log_call_def)

lemma calls_log_call: "calls (log_call c w) = calls w @ [c]"
  by (simp add: log_call_def)

lemma get_cached_results_world:
  "snd (get_cached_results d q w) = log_call (Get (''search_cache:'' @ q)) w"
  by (simp add: get_cached_results_def redis_get_def Let_def
      split: option.splits rvalue.splits sum.splits)

lemma get_cached_results_hit:
  assumes "fault d (store w) (Get (''search_cache:'' @ q)) = None"
    and "store w (''search_cache:'' @ q) = Some (RString s)"
    and "s \<noteq> []" and "py_eval d s = Inr xs"
  shows "get_cached_results d q w = (Inr (Some xs), log_call (Get (''search_cache:'' @ q)) w)"
  using assms by (simp add: get_cached_results_def redis_get_def Let_def)

lemma get_cached_results_absent:
  assumes "fault d (store w) (Get (''search_cache:'' @ q)) = None"
    and "store w (''search_cache:'' @ q) = None"
  shows "get_cached_results d q w = (Inr None, log_call (Get (''search_cache:'' @ q)) w)"
  using assms by (simp add: get_cached_results_def redis_get_def Let_def)

lemma get_recipes_by_query_hit:
  assumes "get_cached_results d q w = (Inr (Some xs), w')" and "xs \<noteq> []"
  shows "get_recipes_by_query d q p n w = (Inr (py_slice xs ((p - 1) * n) ((p - 1) * n + n)), w')"
  using assms by (cases xs) (simp_all add: get_recipes_by_query_def Let_def)

lemma get_recipes_by_query_miss:
  assumes "get_cached_results d q w = (Inr c, w')" and "\<not> truthy c"
  shows "get_recipes_by_query d q p n w = search_and_cache d q p n w'"
  using assms by (simp add: get_recipes_by_query_def)

lemma cache_results_ok:
  assumes "fault d (store w) (Setex (''search_cache:'' @ q) 3 (py_str d rs)) = None"
  shows "cache_results d q rs w =
     (Inr (), w\<lparr>store := (store w)(''search_cache:'' @ q \<mapsto> RString (py_str d rs)),
               ttl := (ttl w)(''search_cache:'' @ q \<mapsto> 3),
               calls := calls w @ [Setex (''search_cache:'' @ q) 3 (py_str d rs)]\<rparr>)"
  using assms
  by (simp add: cache_results_def redis_setex_def Let_def CACHE_EXPIRATION_def log_call_def)

lemma cache_results_fault:
  assumes "fault d (store w) (Setex (''search_cache:'' @ q) 3 (py_str d rs)) = Some e"
  shows "cache_results d q rs w =
     (Inl e, log_call (Setex (''search_cache:'' @ q) 3 (py_str d rs)) w)"
  using assms by (simp add: cache_results_def redis_setex_def Let_def CACHE_EXPIRATION_def)

lemma search_and_cache_ok:
  assumes "encoder d q = Inr v" and "backend_search d v = Inr docs"
    and "fault d (store w) (Setex (''search_cache:'' @ q) 3 (py_str d (map doc_item docs))) = None"
  shows "search_and_cache d q p n w =
     (Inr (py_slice (map doc_item docs) ((p - 1) * n) ((p - 1) * n + n)),
      w\<lparr>store := (store w)(''search_cache:'' @ q \<mapsto> RString (py_str d (map doc_item docs))),
        ttl := (ttl w)(''search_cache:'' @ q \<mapsto> 3),
        calls := calls w @ [Encode q, Search v,
                   Setex (''search_cache:'' @ q) 3 (py_str d (map doc_item docs))]\<rparr>)"
  using assms
  by (simp add: search_and_cache_def model_encode_def ft_search_def collect_results_map
      cache_results_ok store_log_call ttl_log_call calls_log_call Let_def log_call_def)

lemma search_and_cache_setex_fault:
  assumes "encoder d q = Inr v" and "backend_search d v = Inr docs"
    and "fault d (store w) (Setex (''search_cache:'' @ q) 3 (py_str d (map doc_item docs))) = Some e"
  shows "search_and_cache d q p n w =
     ((case e of
         OutOfMemoryError m \<Rightarrow> Inr (py_slice (map doc_item docs) ((p - 1) * n) ((p - 1) * n + n))
       | OtherException m \<Rightarrow> Inl (OtherException m)),
      w\<lparr>calls := calls w @ [Encode q, Search v,
                   Setex (''search_cache:'' @ q) 3 (py_str d (map doc_item docs))]\<rparr>)"
  using assms
  by (cases e)
    (simp_all add: search_and_cache_def model_encode_def ft_search_def collect_results_map
      cache_results_fault store_log_call ttl_log_call calls_log_call Let_def log_call_def)

lemma search_and_cache_encoder_fails:
  assumes "encoder d q = Inl e"
  shows "search_and_cache d q p n w = (Inl e, log_call (Encode q) w)"
  using assms by (simp add: search_and_cache_def model_encode_def)

lemma search_and_cache_backend_fails:
  assumes "encoder d q = Inr v" and "backend_search d v = Inl e"
  shows "search_and_cache d q p n w = (Inl e, log_call (Search v) (log_call (Encode q) w))"
  using assms by (simp add: search_and_cache_def model_encode_def ft_search_def)

lemma get_recipes_success:
  assumes "1 \<le> page" and "get_recipes_by_query d q page 3 w = (Inr rs, w')"
  shows "get_recipes d q page w = (RecipesResponse q page rs (length rs = 3), w')"
  using assms by (simp add: get_recipes_def)

lemma get_recipes_failure:
  assumes "1 \<le> page" and "get_recipes_by_query d q page 3 w = (Inl e, w')"
  shows "get_recipes d q page w = (ErrorResponse (exn_str e), w')"
  using assms by (simp add: get_recipes_def)

lemma get_recipes_response:
  assumes "get_recipes d q page w = (RecipesResponse q' p' rs hm, w')"
  shows "1 \<le> page \<and> q' = q \<and> p' = page \<and> hm = (length rs = 3)
         \<and> get_recipes_by_query d q page 3 w = (Inr rs, w')"
  using assms by (auto simp: get_recipes_def split: if_splits prod.splits sum.splits)

lemma mock_hit:
  "get_cached_results mock_deps ''test query'' (cached_world ''[recipe 1, recipe 2, recipe 3]'')
    = (Inr (Some MOCK_CACHED_RESULTS),
       log_call (Get ''search_cache:test query'') (cached_world ''[recipe 1, recipe 2, recipe 3]''))"
  by (simp add: get_cached_results_def redis_get_def mock_deps_def cached_world_def Let_def mock_eval_def)

lemma mock_absent:
  "get_cached_results mock_deps ''test query'' empty_world
    = (Inr None, log_call (Get ''search_cache:test query'') empty_world)"
  by (simp add: get_cached_results_def redis_get_def mock_deps_def empty_world_def Let_def)

lemma mock_items: "map doc_item MOCK_REDIS_DOCS = MOCK_CACHED_RESULTS"
  by (simp add: MOCK_REDIS_DOCS_def MOCK_CACHED_RESULTS_def doc_item_def)

lemma cache_results_world:
  "calls (snd (cache_results d q rs w)) = calls w @ [Setex (''search_cache:'' @ q) 3 (py_str d rs)]"
  "k \<noteq> ''search_cache:'' @ q \<Longrightarrow> store (snd (cache_results d q rs w)) k = store w k"
  by (simp_all add: cache_results_def redis_setex_def Let_def CACHE_EXPIRATION_def log_call_def
      split: option.splits)

lemma store_click_data_new:
  assumes "store w (''clicks:'' @ q @ '':'' @ l) = None"
    and "fault d (store w) (Exists (''clicks:'' @ q @ '':'' @ l)) = None"
    and "fault d (store w) (Hset (''clicks:'' @ q @ '':'' @ l) [(''count'', 1)]) = None"
  shows "store_click_data d q l w =
     (Inr (), w\<lparr>store := (store w)(''clicks:'' @ q @ '':'' @ l \<mapsto> RHash [''count'' \<mapsto> 1]),
               calls := calls w @ [Exists (''clicks:'' @ q @ '':'' @ l),
                                   Hset (''clicks:'' @ q @ '':'' @ l) [(''count'', 1)]]\<rparr>)"
  using assms
  by (simp add: store_click_data_def redis_exists_def redis_hset_def Let_def log_call_def)

lemma store_click_data_existing:
  assumes "store w (''clicks:'' @ q @ '':'' @ l) = Some (RHash h)" and "h ''count'' = Some c"
    and "fault d (store w) (Exists (''clicks:'' @ q @ '':'' @ l)) = None"
    and "fault d (store w) (Hincrby (''clicks:'' @ q @ '':'' @ l) ''count'' 1) = None"
  shows "store_click_data d q l w =
     (Inr (), w\<lparr>store := (store w)(''clicks:'' @ q @ '':'' @ l \<mapsto> RHash (h(''count'' \<mapsto> c + 1))),
               calls := calls w @ [Exists (''clicks:'' @ q @ '':'' @ l),
                                   Hincrby (''clicks:'' @ q @ '':'' @ l) ''count'' 1]\<rparr>)"
  using assms
  by (simp add: store_click_data_def redis_exists_def redis_hincrby_def Let_def log_call_def)

lemma store_click_data_next:
  assumes "store w (''clicks:'' @ q @ '':'' @ l) = Some (RHash [''count'' \<mapsto> c])"
    and "fault d (store w) (Exists (''clicks:'' @ q @ '':'' @ l)) = None"
    and "fault d (store w) (Hincrby (''clicks:'' @ q @ '':'' @ l) ''count'' 1) = None"
  shows "store (snd (store_click_data d q l w)) (''clicks:'' @ q @ '':'' @ l)
           = Some (RHash [''count'' \<mapsto> c + 1])"
proof -
  have "store_click_data d q l w =
     (Inr (), w\<lparr>store := (store w)(''clicks:'' @ q @ '':'' @ l \<mapsto>
                 RHash ([''count'' \<mapsto> c](''count'' \<mapsto> c + 1))),
               calls := calls w @ [Exists (''clicks:'' @ q @ '':'' @ l),
                                   Hincrby (''clicks:'' @ q @ '':'' @ l) ''count'' 1]\<rparr>)"
    using assms by (intro store_click_data_existing) simp_all
  then show ?thesis by simp
qed

lemma record_click_failure:
  assumes "store_click_data d (query cd) (link cd) w = (Inl e, w')"
  shows "record_click d cd w = (ClickResponse ''error'' (exn_str e), w')"
  using assms by (simp add: record_click_def)

lemma store_click_data_exists_fault:
  assumes "fault d (store w) (Exists (''clicks:'' @ q @ '':'' @ l)) = Some e"
  shows "store_click_data d q l w = (Inl e, log_call (Exists (''clicks:'' @ q @ '':'' @ l)) w)"
  using assms by (simp add: store_click_data_def redis_exists_def Let_def)

lemma mock_search_run:
  "get_recipes_by_query mock_deps ''test query'' 1 3 empty_world =
     (Inr MOCK_CACHED_RESULTS,
      \<lparr>store = [''search_cache:test query'' \<mapsto> RString ''[recipe 1, recipe 2, recipe 3]''],
       ttl = [''search_cache:test query'' \<mapsto> 3],
       calls = [Get ''search_cache:test query'', Encode ''test query'', Search [1, 2, 3],
                Setex ''search_cache:test query'' 3 ''[recipe 1, recipe 2, recipe 3]'']\<rparr>)"
  by (simp add: get_recipes_by_query_def get_cached_results_def redis_get_def search_and_cache_def
      model_encode_def ft_search_def cache_results_def redis_setex_def CACHE_EXPIRATION_def
      mock_deps_def empty_world_def log_call_def Let_def MOCK_REDIS_DOCS_def
      MOCK_CACHED_RESULTS_def mock_str_def doc_item_def py_slice_def)

lemma doc_item_keys: "map fst (doc_item dc) = [''title'', ''link'']"
  by (simp add: doc_item_def Let_def)

lemma search_and_cache_calls:
  "\<exists>rest. calls (snd (search_and_cache d q p n w)) = calls w @ Encode q # rest
     \<and> (\<forall>v. encoder d q = Inr v \<longrightarrow> (\<exists>rest'. rest = Search v # rest'))"
  by (auto simp: search_and_cache_def model_encode_def ft_search_def cache_results_def
      redis_setex_def Let_def log_call_def split: sum.splits option.splits exn.splits prod.splits)

lemma search_and_cache_returns:
  assumes "search_and_cache d q p n w = (Inr page, w')"
  shows "\<exists>v docs. encoder d q = Inr v \<and> backend_search d v = Inr docs
           \<and> page = py_slice (map doc_item docs) ((p - 1) * n) ((p - 1) * n + n)"
  using assms
  by (auto simp: search_and_cache_def model_encode_def ft_search_def Let_def collect_results_map
      split: sum.splits prod.splits exn.splits)

lemma get_recipes_by_query_calls:
  "\<exists>rest. calls (snd (get_recipes_by_query d q p n w)) = calls w @ Get (''search_cache:'' @ q) # rest"
proof -
  obtain r w1 where g: "get_cached_results d q w = (r, w1)"
    by (cases "get_cached_results d q w")
  with get_cached_results_world [of d q w]
  have w1: "calls w1 = calls w @ [Get (''search_cache:'' @ q)]"
    by (simp add: calls_log_call)
  show ?thesis
  proof (cases r)
    case (Inl e)
    with g w1 show ?thesis by (simp add: get_recipes_by_query_def)
  next
    case (Inr c)
    show ?thesis
    proof (cases "truthy c")
      case True
      with g Inr w1 show ?thesis by (simp add: get_recipes_by_query_def Let_def)
    next
      case False
      with g Inr have "get_recipes_by_query d q p n w = search_and_cache d q p n w1"
        by (simp add: get_recipes_by_query_def)
      with search_and_cache_calls [of d q p n w1] w1 show ?thesis by auto
    qed
  qed
qed

lemma get_recipes_world:
  "1 \<le> page \<Longrightarrow> snd (get_recipes d q page w) = snd (get_recipes_by_query d q page 3 w)"
  by (simp add: get_recipes_def split: prod.splits sum.splits)

subsection \<open>Cache-write failures\<close>

text \<open>
  C1, as stated, fails: a cache write that fails with an exception other than
  \<^verbatim>\<open>redis.exceptions.OutOfMemoryError\<close> is not tolerated. With no cache entry, a
  working encoder and a working search, a refused connection on \<^verbatim>\<open>setex\<close> makes
  \<^verbatim>\<open>get_recipes_by_query\<close> raise that exception instead of returning the page.
\<close>

theorem cache_write_failure_reraised:
  "get_cached_results (setex_fails (OtherException ''Connection refused'')) ''test query'' empty_world
     = (Inr None, log_call (Get ''search_cache:test query'') empty_world)
   \<and> encoder (setex_fails (OtherException ''Connection refused'')) ''test query'' = Inr [1, 2, 3]
   \<and> backend_search (setex_fails (OtherException ''Connection refused'')) [1, 2, 3] = Inr MOCK_REDIS_DOCS
   \<and> fault (setex_fails (OtherException ''Connection refused'')) (store empty_world)
        (Setex ''search_cache:test query'' 3 ''[recipe 1, recipe 2, recipe 3]'')
       = Some (OtherException ''Connection refused'')
   \<and> fst (get_recipes_by_query (setex_fails (OtherException ''Connection refused''))
        ''test query'' 1 3 empty_world) = Inl (OtherException ''Connection refused'')"
  by (simp add: get_recipes_by_query_def get_cached_results_def redis_get_def search_and_cache_def
      model_encode_def ft_search_def cache_results_def redis_setex_def CACHE_EXPIRATION_def
      setex_fails_def mock_deps_def empty_world_def log_call_def Let_def MOCK_REDIS_DOCS_def
      MOCK_CACHED_RESULTS_def mock_str_def doc_item_def)

text \<open>
  C1, amended: on the cache-miss path (the lookup returned nothing usable, the encoder and
  the search returned), a cache write that fails with \<^verbatim>\<open>OutOfMemoryError\<close> is
  swallowed and the call returns the slice \<^verbatim>\<open>[(page-1)*items_per_page : +items_per_page]\<close>
  of the full result list; a write that fails with any other exception makes the call
  raise that exception. In both cases the four calls get, encode, search, setex were made
  and the keyspace is unchanged.
\<close>

theorem cache_write_oom_tolerated:
  assumes "get_cached_results d q w = (Inr c, w1)" and "\<not> truthy c"
    and "encoder d q = Inr v" and "backend_search d v = Inr docs"
    and "fault d (store w) (Setex (''search_cache:'' @ q) 3 (py_str d (map doc_item docs))) = Some e"
  shows "get_recipes_by_query d q p n w =
     ((case e of
         OutOfMemoryError m \<Rightarrow> Inr (py_slice (map doc_item docs) ((p - 1) * n) ((p - 1) * n + n))
       | OtherException m \<Rightarrow> Inl (OtherException m)),
      w\<lparr>calls := calls w @ [Get (''search_cache:'' @ q), Encode q, Search v,
                   Setex (''search_cache:'' @ q) 3 (py_str d (map doc_item docs))]\<rparr>)"
proof -
  from assms(1) get_cached_results_world [of d q w]
  have w1: "w1 = log_call (Get (''search_cache:'' @ q)) w" by simp
  have "get_recipes_by_query d q p n w = search_and_cache d q p n w1"
    using assms(1,2) by (rule get_recipes_by_query_miss)
  also have "\<dots> = ((case e of
         OutOfMemoryError m \<Rightarrow> Inr (py_slice (map doc_item docs) ((p - 1) * n) ((p - 1) * n + n))
       | OtherException m \<Rightarrow> Inl (OtherException m)),
      w1\<lparr>calls := calls w1 @ [Encode q, Search v,
                   Setex (''search_cache:'' @ q) 3 (py_str d (map doc_item docs))]\<rparr>)"
    using assms(3,4,5) by (intro search_and_cache_setex_fault) (simp_all add: w1 store_log_call)
  finally show ?thesis by (simp add: w1 log_call_def)
qed

text \<open>
  C1, amended, on the mocked collaborators with a store that is out of memory: page 1 of
  the three mocked recipes is returned.
\<close>

theorem cache_write_oom_tolerated_witness:
  "get_recipes_by_query (setex_fails (OutOfMemoryError ''OOM command not allowed'')) ''test query'' 1 3 empty_world =
     (Inr MOCK_CACHED_RESULTS,
      empty_world\<lparr>calls := [Get ''search_cache:test query'', Encode ''test query'', Search [1, 2, 3],
                   Setex ''search_cache:test query'' 3 ''[recipe 1, recipe 2, recipe 3]'']\<rparr>)"
proof -
  let ?d = "setex_fails (OutOfMemoryError ''OOM command not allowed'')"
  have h1: "get_cached_results ?d ''test query'' empty_world
     = (Inr None, log_call (Get ''search_cache:test query'') empty_world)"
    by (simp add: get_cached_results_def redis_get_def setex_fails_def mock_deps_def empty_world_def Let_def)
  have h2: "\<not> truthy (None :: pydict list option)" by simp
  have h3: "encoder ?d ''test query'' = Inr [1, 2, 3]"
    by (simp add: setex_fails_def mock_deps_def)
  have h4: "backend_search ?d [1, 2, 3] = Inr MOCK_REDIS_DOCS"
    by (simp add: setex_fails_def mock_deps_def)
  have h5: "fault ?d (store empty_world)
      (Setex (''search_cache:'' @ ''test query'') 3 (py_str ?d (map doc_item MOCK_REDIS_DOCS)))
      = Some (OutOfMemoryError ''OOM command not allowed'')"
    by (simp add: setex_fails_def mock_deps_def)
  have items: "map doc_item MOCK_REDIS_DOCS = MOCK_CACHED_RESULTS"
    by (simp add: MOCK_REDIS_DOCS_def MOCK_CACHED_RESULTS_def doc_item_def)
  have str: "py_str ?d MOCK_CACHED_RESULTS = ''[recipe 1, recipe 2, recipe 3]''"
    by (simp add: setex_fails_def mock_deps_def mock_str_def MOCK_CACHED_RESULTS_def)
  have sl: "py_slice MOCK_CACHED_RESULTS 0 3 = MOCK_CACHED_RESULTS"
    by (simp add: py_slice_def MOCK_CACHED_RESULTS_def)
  from cache_write_oom_tolerated [OF h1 h2 h3 h4 h5, of 1 3]
  show ?thesis by (simp add: items str sl empty_world_def)
qed

subsection \<open>The has-more flag\<close>

text \<open>
  C2: whenever \<^verbatim>\<open>/recipes\<close> answers with results, they are the page that
  \<^verbatim>\<open>get_recipes_by_query\<close> returned for page size 3, and \<^verbatim>\<open>has_more\<close> is true
  exactly when that page holds 3 items. For a result set of exactly 3 items, whether it
  comes from the cache or from a fresh search that was cached, page 1 is the 3 items
  with \<^verbatim>\<open>has_more\<close> true and page 2 is empty with \<^verbatim>\<open>has_more\<close> false.
\<close>

theorem has_more_iff_full_page:
  "(get_recipes d q page w = (RecipesResponse q' p' rs hm, w') \<longrightarrow>
      hm = (length rs = 3) \<and> get_recipes_by_query d q page 3 w = (Inr rs, w'))
   \<and> (get_cached_results d q w = (Inr (Some [a, b, c]), w1) \<longrightarrow>
        fst (get_recipes d q 1 w) = RecipesResponse q 1 [a, b, c] True
        \<and> fst (get_recipes d q 2 w) = RecipesResponse q 2 [] False)
   \<and> (get_cached_results d q w = (Inr cached, w1) \<and> \<not> truthy cached
        \<and> encoder d q = Inr v \<and> backend_search d v = Inr [d1, d2, d3]
        \<and> fault d (store w) (Setex (''search_cache:'' @ q) 3
             (py_str d [doc_item d1, doc_item d2, doc_item d3])) = None \<longrightarrow>
        fst (get_recipes d q 1 w) = RecipesResponse q 1 [doc_item d1, doc_item d2, doc_item d3] True
        \<and> fst (get_recipes d q 2 w) = RecipesResponse q 2 [] False)"
proof (intro conjI impI)
  assume "get_recipes d q page w = (RecipesResponse q' p' rs hm, w')"
  from get_recipes_response [OF this]
  show "hm = (length rs = 3)" and "get_recipes_by_query d q page 3 w = (Inr rs, w')"
    by simp_all
next
  assume h: "get_cached_results d q w = (Inr (Some [a, b, c]), w1)"
  have "get_recipes_by_query d q 1 3 w = (Inr (py_slice [a, b, c] ((1 - 1) * 3) ((1 - 1) * 3 + 3)), w1)"
    using h by (rule get_recipes_by_query_hit) simp
  then have "get_recipes_by_query d q 1 3 w = (Inr [a, b, c], w1)"
    by (simp add: py_slice_def)
  from get_recipes_success [OF _ this]
  show "fst (get_recipes d q 1 w) = RecipesResponse q 1 [a, b, c] True" by simp
  have "get_recipes_by_query d q 2 3 w = (Inr (py_slice [a, b, c] ((2 - 1) * 3) ((2 - 1) * 3 + 3)), w1)"
    using h by (rule get_recipes_by_query_hit) simp
  then have "get_recipes_by_query d q 2 3 w = (Inr [], w1)"
    by (simp add: py_slice_def)
  from get_recipes_success [OF _ this]
  show "fst (get_recipes d q 2 w) = RecipesResponse q 2 [] False" by simp
next
  assume a: "get_cached_results d q w = (Inr cached, w1) \<and> \<not> truthy cached
        \<and> encoder d q = Inr v \<and> backend_search d v = Inr [d1, d2, d3]
        \<and> fault d (store w) (Setex (''search_cache:'' @ q) 3
             (py_str d [doc_item d1, doc_item d2, doc_item d3])) = None"
  from a get_cached_results_world [of d q w]
  have w1: "w1 = log_call (Get (''search_cache:'' @ q)) w" by simp
  from a have a1: "get_cached_results d q w = (Inr cached, w1)" and a2: "\<not> truthy cached"
    and a3: "encoder d q = Inr v" and a4: "backend_search d v = Inr [d1, d2, d3]"
    and a5: "fault d (store w1) (Setex (''search_cache:'' @ q) 3
             (py_str d (map doc_item [d1, d2, d3]))) = None"
    by (simp_all add: w1 store_log_call)
  have miss: "get_recipes_by_query d q p 3 w = search_and_cache d q p 3 w1" for p
    using a1 a2 by (rule get_recipes_by_query_miss)
  have sc: "fst (search_and_cache d q p 3 w1) =
      Inr (py_slice (map doc_item [d1, d2, d3]) ((p - 1) * 3) ((p - 1) * 3 + 3))" for p
    by (simp add: search_and_cache_ok [OF a3 a4 a5])
  have p1: "fst (get_recipes_by_query d q 1 3 w) = Inr [doc_item d1, doc_item d2, doc_item d3]"
    using sc [of 1] by (simp add: miss py_slice_def)
  have p2: "fst (get_recipes_by_query d q 2 3 w) = Inr []"
    using sc [of 2] by (simp add: miss py_slice_def)
  from p1 obtain wa where "get_recipes_by_query d q 1 3 w = (Inr [doc_item d1, doc_item d2, doc_item d3], wa)"
    by (cases "get_recipes_by_query d q 1 3 w") simp
  from get_recipes_success [OF _ this]
  show "fst (get_recipes d q 1 w) = RecipesResponse q 1 [doc_item d1, doc_item d2, doc_item d3] True"
    by simp
  from p2 obtain wb where "get_recipes_by_query d q 2 3 w = (Inr [], wb)"
    by (cases "get_recipes_by_query d q 2 3 w") simp
  from get_recipes_success [OF _ this]
  show "fst (get_recipes d q 2 w) = RecipesResponse q 2 [] False"
    by simp
qed

text \<open>
  C2 on the mocked collaborators: the three mocked recipes, served from the cache and
  from a fresh search.
\<close>

theorem has_more_iff_full_page_witness:
  "get_recipes mock_deps ''test query'' 1 (cached_world ''[recipe 1, recipe 2, recipe 3]'')
     = (RecipesResponse ''test query'' 1 MOCK_CACHED_RESULTS True,
        log_call (Get ''search_cache:test query'') (cached_world ''[recipe 1, recipe 2, recipe 3]''))
   \<and> length MOCK_CACHED_RESULTS = 3
   \<and> fst (get_recipes mock_deps ''test query'' 2 (cached_world ''[recipe 1, recipe 2, recipe 3]''))
     = RecipesResponse ''test query'' 2 [] False
   \<and> fst (get_recipes mock_deps ''test query'' 1 empty_world)
     = RecipesResponse ''test query'' 1 MOCK_CACHED_RESULTS True
   \<and> fst (get_recipes mock_deps ''test query'' 2 empty_world)
     = RecipesResponse ''test query'' 2 [] False"
proof -
  let ?w = "cached_world ''[recipe 1, recipe 2, recipe 3]''"
  let ?w1 = "log_call (Get ''search_cache:test query'') ?w"
  have r: "get_recipes mock_deps ''test query'' 1 ?w
     = (RecipesResponse ''test query'' 1 MOCK_CACHED_RESULTS True, ?w1)"
    by (simp add: get_recipes_def get_recipes_by_query_def mock_hit MOCK_CACHED_RESULTS_def
        py_slice_def)
  have hit: "get_cached_results mock_deps ''test query'' ?w
     = (Inr (Some [MOCK_CACHED_RESULTS ! 0, MOCK_CACHED_RESULTS ! 1, MOCK_CACHED_RESULTS ! 2]), ?w1)"
    by (simp add: mock_hit) (simp add: MOCK_CACHED_RESULTS_def)
  have miss: "get_cached_results mock_deps ''test query'' empty_world
       = (Inr None, log_call (Get ''search_cache:test query'') empty_world)
     \<and> \<not> truthy (None :: pydict list option)
     \<and> encoder mock_deps ''test query'' = Inr [1, 2, 3]
     \<and> backend_search mock_deps [1, 2, 3] = Inr [MOCK_REDIS_DOCS ! 0, MOCK_REDIS_DOCS ! 1, MOCK_REDIS_DOCS ! 2]
     \<and> fault mock_deps (store empty_world) (Setex (''search_cache:'' @ ''test query'') 3
          (py_str mock_deps [doc_item (MOCK_REDIS_DOCS ! 0), doc_item (MOCK_REDIS_DOCS ! 1),
             doc_item (MOCK_REDIS_DOCS ! 2)])) = None"
    by (simp add: mock_absent) (simp add: mock_deps_def MOCK_REDIS_DOCS_def)
  have l: "length MOCK_CACHED_RESULTS = 3" by (simp add: MOCK_CACHED_RESULTS_def)
  have e1: "[MOCK_CACHED_RESULTS ! 0, MOCK_CACHED_RESULTS ! 1, MOCK_CACHED_RESULTS ! 2] = MOCK_CACHED_RESULTS"
    by (simp add: MOCK_CACHED_RESULTS_def)
  have e2: "[doc_item (MOCK_REDIS_DOCS ! 0), doc_item (MOCK_REDIS_DOCS ! 1),
             doc_item (MOCK_REDIS_DOCS ! 2)] = MOCK_CACHED_RESULTS"
    by (simp add: MOCK_CACHED_RESULTS_def MOCK_REDIS_DOCS_def doc_item_def)
  note t = has_more_iff_full_page [of mock_deps "''test query''" 1 ?w "''test query''" 1
      MOCK_CACHED_RESULTS True ?w1
      "MOCK_CACHED_RESULTS ! 0" "MOCK_CACHED_RESULTS ! 1" "MOCK_CACHED_RESULTS ! 2" ?w1]
  note u = has_more_iff_full_page [of mock_deps "''test query''" 1 empty_world "''test query''" 1
      MOCK_CACHED_RESULTS True ?w1 a b c
      "log_call (Get ''search_cache:test query'') empty_world" None
      "[1, 2, 3]" "MOCK_REDIS_DOCS ! 0" "MOCK_REDIS_DOCS ! 1" "MOCK_REDIS_DOCS ! 2"]
  from t r hit l e1 have "fst (get_recipes mock_deps ''test query'' 2 ?w)
     = RecipesResponse ''test query'' 2 [] False" by simp
  moreover from u miss e2 have "fst (get_recipes mock_deps ''test query'' 1 empty_world)
     = RecipesResponse ''test query'' 1 MOCK_CACHED_RESULTS True
   \<and> fst (get_recipes mock_deps ''test query'' 2 empty_world)
     = RecipesResponse ''test query'' 2 [] False" by simp
  ultimately show ?thesis using r l by simp
qed

subsection \<open>Serving a page from the cache\<close>

text \<open>
  C3, as stated, fails for a cache entry that holds the empty list (N = 0): the entry
  \<^verbatim>\<open>"[]"\<close> deserializes to \<^verbatim>\<open>[]\<close>, which is falsy, so the encoder and the search
  are called and the page comes from the fresh search, not from the (empty) cached list.
\<close>

theorem empty_cached_list_runs_search:
  "store (cached_world ''[]'') ''search_cache:test query'' = Some (RString ''[]'')
   \<and> py_eval mock_deps ''[]'' = Inr []
   \<and> get_recipes_by_query mock_deps ''test query'' 1 3 (cached_world ''[]'') =
       (Inr MOCK_CACHED_RESULTS,
        \<lparr>store = [''search_cache:test query'' \<mapsto> RString ''[recipe 1, recipe 2, recipe 3]''],
         ttl = [''search_cache:test query'' \<mapsto> 3],
         calls = [Get ''search_cache:test query'', Encode ''test query'', Search [1, 2, 3],
                  Setex ''search_cache:test query'' 3 ''[recipe 1, recipe 2, recipe 3]'']\<rparr>)"
  by (simp add: get_recipes_by_query_def get_cached_results_def redis_get_def search_and_cache_def
      model_encode_def ft_search_def cache_results_def redis_setex_def CACHE_EXPIRATION_def
      mock_deps_def cached_world_def log_call_def Let_def MOCK_REDIS_DOCS_def
      MOCK_CACHED_RESULTS_def mock_str_def mock_eval_def doc_item_def py_slice_def)

text \<open>
  C3, amended: for a query whose cache entry holds a non-empty list, the call returns
  the Python slice \<^verbatim>\<open>[(p-1)*s : (p-1)*s + s]\<close> of the cached list, and the only call
  made is the \<^verbatim>\<open>get\<close> of the cache key: no encoder call, no search call, no write.
  For a page \<open>p \<ge> 1\<close> and a page size \<open>s \<ge> 0\<close> that slice is the sublist of the
  cached list from index \<open>(p-1)*s\<close>, at most \<open>s\<close> items long, in the cached order, and
  it is empty when the start index is past the end of the list.
\<close>

theorem cached_page_is_slice:
  assumes "fault d (store w) (Get (''search_cache:'' @ q)) = None"
    and "store w (''search_cache:'' @ q) = Some (RString payload)"
    and "payload \<noteq> []" and "py_eval d payload = Inr xs" and "xs \<noteq> []"
  shows "get_recipes_by_query d q p s w =
           (Inr (py_slice xs ((p - 1) * s) ((p - 1) * s + s)),
            w\<lparr>calls := calls w @ [Get (''search_cache:'' @ q)]\<rparr>)
         \<and> (1 \<le> p \<and> 0 \<le> s \<longrightarrow>
              py_slice xs ((p - 1) * s) ((p - 1) * s + s) = take (nat s) (drop (nat ((p - 1) * s)) xs))
         \<and> (1 \<le> p \<and> 0 \<le> s \<and> int (length xs) \<le> (p - 1) * s \<longrightarrow>
              fst (get_recipes_by_query d q p s w) = Inr [])"
proof -
  have "get_cached_results d q w = (Inr (Some xs), log_call (Get (''search_cache:'' @ q)) w)"
    using assms(1-4) by (rule get_cached_results_hit)
  from get_recipes_by_query_hit [OF this assms(5), of p s]
  have r: "get_recipes_by_query d q p s w =
           (Inr (py_slice xs ((p - 1) * s) ((p - 1) * s + s)),
            w\<lparr>calls := calls w @ [Get (''search_cache:'' @ q)]\<rparr>)"
    by (simp add: log_call_def)
  have t: "py_slice xs ((p - 1) * s) ((p - 1) * s + s) = take (nat s) (drop (nat ((p - 1) * s)) xs)"
    if "1 \<le> p \<and> 0 \<le> s"
    using that by (simp add: py_slice_page)
  have e: "fst (get_recipes_by_query d q p s w) = Inr []"
    if "1 \<le> p \<and> 0 \<le> s \<and> int (length xs) \<le> (p - 1) * s"
  proof -
    from that have "int (length xs) \<le> (p - 1) * s" by blast
    then have "length xs \<le> nat ((p - 1) * s)" by simp
    moreover from that have "1 \<le> p \<and> 0 \<le> s" by blast
    ultimately show ?thesis by (simp add: r t)
  qed
  from r t e show ?thesis by blast
qed

text \<open>
  C3, amended, on the three cached mock recipes: page 1 of size 2 is the first two
  recipes with a single \<^verbatim>\<open>get\<close>, and page 3 of size 2 is empty.
\<close>

theorem cached_page_is_slice_witness:
  "get_recipes_by_query mock_deps ''test query'' 1 2 (cached_world ''[recipe 1, recipe 2, recipe 3]'') =
     (Inr (take 2 MOCK_CACHED_RESULTS),
      (cached_world ''[recipe 1, recipe 2, recipe 3]'')\<lparr>calls := [Get ''search_cache:test query'']\<rparr>)
   \<and> fst (get_recipes_by_query mock_deps ''test query'' 3 2 (cached_world ''[recipe 1, recipe 2, recipe 3]''))
       = Inr []"
proof -
  let ?w = "cached_world ''[recipe 1, recipe 2, recipe 3]''"
  have h1: "fault mock_deps (store ?w) (Get (''search_cache:'' @ ''test query'')) = None"
    by (simp add: mock_deps_def)
  have h2: "store ?w (''search_cache:'' @ ''test query'') = Some (RString ''[recipe 1, recipe 2, recipe 3]'')"
    by (simp add: cached_world_def)
  have h3: "''[recipe 1, recipe 2, recipe 3]'' \<noteq> []" by simp
  have h4: "py_eval mock_deps ''[recipe 1, recipe 2, recipe 3]'' = Inr MOCK_CACHED_RESULTS"
    by (simp add: mock_deps_def mock_eval_def)
  have h5: "MOCK_CACHED_RESULTS \<noteq> []" by (simp add: MOCK_CACHED_RESULTS_def)
  have l: "length MOCK_CACHED_RESULTS = 3" by (simp add: MOCK_CACHED_RESULTS_def)
  have c: "calls ?w = []" by (simp add: cached_world_def)
  note t1 = cached_page_is_slice [OF h1 h2 h3 h4 h5, of 1 2]
  note t3 = cached_page_is_slice [OF h1 h2 h3 h4 h5, of 3 2]
  from t1 [THEN conjunct1] t1 [THEN conjunct2, THEN conjunct1]
  have a: "get_recipes_by_query mock_deps ''test query'' 1 2 ?w =
     (Inr (take 2 MOCK_CACHED_RESULTS), ?w\<lparr>calls := [Get ''search_cache:test query'']\<rparr>)"
    by (simp add: c)
  from t3 [THEN conjunct2, THEN conjunct2]
  have b: "fst (get_recipes_by_query mock_deps ''test query'' 3 2 ?w) = Inr []"
    by (simp add: l)
  from a b show ?thesis by simp
qed

subsection \<open>The cache-miss pipeline\<close>

text \<open>
  C4: for a query with no cache entry. When the encoder and the search return, the calls
  made are exactly: the \<^verbatim>\<open>get\<close> of the cache key, one encoder call, one search call and
  one \<^verbatim>\<open>setex\<close> of the cache key with TTL \<^verbatim>\<open>CACHE_EXPIRATION\<close> = 3 whose payload is
  the string of the full result list, not of the page; when that write succeeds, the
  keyspace holds the full list under the cache key with TTL 3 and the call returns the
  slice of the full list. Conversely, whenever the call returns a page, the encoder and
  the search returned, exactly those four calls were made, and the page is the slice of
  the full list that was written.
\<close>

theorem cache_miss_runs_full_pipeline:
  assumes "fault d (store w) (Get (''search_cache:'' @ q)) = None"
    and "store w (''search_cache:'' @ q) = None"
  shows "(encoder d q = Inr v \<and> backend_search d v = Inr docs \<longrightarrow>
            calls (snd (get_recipes_by_query d q p n w)) =
              calls w @ [Get (''search_cache:'' @ q), Encode q, Search v,
                         Setex (''search_cache:'' @ q) CACHE_EXPIRATION (py_str d (map doc_item docs))]
            \<and> CACHE_EXPIRATION = 3
            \<and> (fault d (store w) (Setex (''search_cache:'' @ q) 3 (py_str d (map doc_item docs))) = None \<longrightarrow>
                 get_recipes_by_query d q p n w =
                   (Inr (py_slice (map doc_item docs) ((p - 1) * n) ((p - 1) * n + n)),
                    w\<lparr>store := (store w)(''search_cache:'' @ q \<mapsto> RString (py_str d (map doc_item docs))),
                      ttl := (ttl w)(''search_cache:'' @ q \<mapsto> 3),
                      calls := calls w @ [Get (''search_cache:'' @ q), Encode q, Search v,
                         Setex (''search_cache:'' @ q) 3 (py_str d (map doc_item docs))]\<rparr>)))
         \<and> (get_recipes_by_query d q p n w = (Inr page, w') \<longrightarrow>
              (\<exists>v' docs'. encoder d q = Inr v' \<and> backend_search d v' = Inr docs'
                 \<and> page = py_slice (map doc_item docs') ((p - 1) * n) ((p - 1) * n + n)
                 \<and> calls w' = calls w @ [Get (''search_cache:'' @ q), Encode q, Search v',
                      Setex (''search_cache:'' @ q) 3 (py_str d (map doc_item docs'))]))"
proof -
  let ?k = "''search_cache:'' @ q"
  let ?w1 = "log_call (Get ?k) w"
  have "get_cached_results d q w = (Inr None, ?w1)"
    using assms(1,2) by (rule get_cached_results_absent)
  then have miss: "get_recipes_by_query d q p n w = search_and_cache d q p n ?w1"
    by (rule get_recipes_by_query_miss) simp
  have tr: "calls (snd (get_recipes_by_query d q p n w)) =
           calls w @ [Get ?k, Encode q, Search u, Setex ?k 3 (py_str d (map doc_item ds))]"
    if e: "encoder d q = Inr u" and b: "backend_search d u = Inr ds" for u ds
  proof (cases "fault d (store w) (Setex ?k 3 (py_str d (map doc_item ds)))")
    case None
    then have "fault d (store ?w1) (Setex ?k 3 (py_str d (map doc_item ds))) = None"
      by (simp add: store_log_call)
    from search_and_cache_ok [OF e b this, of p n] show ?thesis
      by (simp add: miss log_call_def)
  next
    case (Some x)
    then have "fault d (store ?w1) (Setex ?k 3 (py_str d (map doc_item ds))) = Some x"
      by (simp add: store_log_call)
    from search_and_cache_setex_fault [OF e b this, of p n] show ?thesis
      by (simp add: miss log_call_def)
  qed
  have ok: "get_recipes_by_query d q p n w =
                (Inr (py_slice (map doc_item docs) ((p - 1) * n) ((p - 1) * n + n)),
                 w\<lparr>store := (store w)(?k \<mapsto> RString (py_str d (map doc_item docs))),
                   ttl := (ttl w)(?k \<mapsto> 3),
                   calls := calls w @ [Get ?k, Encode q, Search v,
                      Setex ?k 3 (py_str d (map doc_item docs))]\<rparr>)"
    if e: "encoder d q = Inr v" and b: "backend_search d v = Inr docs"
      and f: "fault d (store w) (Setex ?k 3 (py_str d (map doc_item docs))) = None"
  proof -
    from f have "fault d (store ?w1) (Setex ?k 3 (py_str d (map doc_item docs))) = None"
      by (simp add: store_log_call)
    from search_and_cache_ok [OF e b this, of p n] show ?thesis
      by (simp add: miss log_call_def)
  qed
  have conv: "\<exists>v' docs'. encoder d q = Inr v' \<and> backend_search d v' = Inr docs'
                 \<and> page = py_slice (map doc_item docs') ((p - 1) * n) ((p - 1) * n + n)
                 \<and> calls w' = calls w @ [Get ?k, Encode q, Search v',
                      Setex ?k 3 (py_str d (map doc_item docs'))]"
    if r: "get_recipes_by_query d q p n w = (Inr page, w')"
  proof -
    from r miss have "search_and_cache d q p n ?w1 = (Inr page, w')" by simp
    from search_and_cache_returns [OF this]
    obtain v' docs' where e: "encoder d q = Inr v'" and b: "backend_search d v' = Inr docs'"
      and pg: "page = py_slice (map doc_item docs') ((p - 1) * n) ((p - 1) * n + n)"
      by blast
    from tr [OF e b] r
    have "calls w' = calls w @ [Get ?k, Encode q, Search v', Setex ?k 3 (py_str d (map doc_item docs'))]"
      by simp
    with e b pg show ?thesis by blast
  qed
  from tr ok conv show ?thesis by (simp add: CACHE_EXPIRATION_def)
qed

text \<open>
  C4 on the mocked collaborators, as in \<^verbatim>\<open>test_get_recipes_by_query_without_cache\<close>:
  page 1 of size 2.
\<close>

theorem cache_miss_runs_full_pipeline_witness:
  "get_recipes_by_query mock_deps ''test query'' 1 2 empty_world =
     (Inr (take 2 MOCK_CACHED_RESULTS),
      \<lparr>store = [''search_cache:test query'' \<mapsto> RString ''[recipe 1, recipe 2, recipe 3]''],
       ttl = [''search_cache:test query'' \<mapsto> 3],
       calls = [Get ''search_cache:test query'', Encode ''test query'', Search [1, 2, 3],
                Setex ''search_cache:test query'' 3 ''[recipe 1, recipe 2, recipe 3]'']\<rparr>)
   \<and> (\<exists>v' docs'. encoder mock_deps ''test query'' = Inr v'
          \<and> backend_search mock_deps v' = Inr docs'
          \<and> take 2 MOCK_CACHED_RESULTS = py_slice (map doc_item docs') 0 2)"
proof -
  let ?w' = "\<lparr>store = [''search_cache:test query'' \<mapsto> RString ''[recipe 1, recipe 2, recipe 3]''],
       ttl = [''search_cache:test query'' \<mapsto> 3],
       calls = [Get ''search_cache:test query'', Encode ''test query'', Search [1, 2, 3],
                Setex ''search_cache:test query'' 3 ''[recipe 1, recipe 2, recipe 3]'']\<rparr>"
  have h1: "fault mock_deps (store empty_world) (Get (''search_cache:'' @ ''test query'')) = None"
    by (simp add: mock_deps_def)
  have h2: "store empty_world (''search_cache:'' @ ''test query'') = None"
    by (simp add: empty_world_def)
  have h3: "encoder mock_deps ''test query'' = Inr [1, 2, 3]
      \<and> backend_search mock_deps [1, 2, 3] = Inr MOCK_REDIS_DOCS"
    by (simp add: mock_deps_def)
  have h5: "fault mock_deps (store empty_world)
      (Setex (''search_cache:'' @ ''test query'') 3 (py_str mock_deps (map doc_item MOCK_REDIS_DOCS))) = None"
    by (simp add: mock_deps_def)
  have str: "py_str mock_deps MOCK_CACHED_RESULTS = ''[recipe 1, recipe 2, recipe 3]''"
    by (simp add: mock_deps_def mock_str_def MOCK_CACHED_RESULTS_def)
  have sl: "py_slice MOCK_CACHED_RESULTS 0 2 = take 2 MOCK_CACHED_RESULTS"
    by (simp add: py_slice_def MOCK_CACHED_RESULTS_def)
  note t = cache_miss_runs_full_pipeline [OF h1 h2, of "[1, 2, 3]" MOCK_REDIS_DOCS 1 2
      "take 2 MOCK_CACHED_RESULTS" ?w']
  from t [THEN conjunct1] h3 h5
  have a: "get_recipes_by_query mock_deps ''test query'' 1 2 empty_world =
     (Inr (take 2 MOCK_CACHED_RESULTS), ?w')"
    by (simp add: mock_items str sl empty_world_def)
  from t [THEN conjunct2] a
  have "\<exists>v' docs'. encoder mock_deps ''test query'' = Inr v'
          \<and> backend_search mock_deps v' = Inr docs'
          \<and> take 2 MOCK_CACHED_RESULTS = py_slice (map doc_item docs') 0 2"
    by auto
  with a show ?thesis by blast
qed

subsection \<open>Click tracking\<close>

text \<open>
  C5: the key used is \<^verbatim>\<open>"clicks:" + query + ":" + link\<close>. When the commands do not
  fail: with no value under the key, recording a click issues \<^verbatim>\<open>exists\<close> and
  \<^verbatim>\<open>hset\<close> and leaves a hash with count 1; with a hash under the key whose count is
  \<open>c\<close>, it issues \<^verbatim>\<open>exists\<close> and \<^verbatim>\<open>hincrby\<close> and leaves the count at \<open>c + 1\<close>;
  four recordings starting with no value leave the count at 4.
\<close>

theorem click_count_accumulates:
  "(store w (''clicks:'' @ q @ '':'' @ l) = None
      \<and> fault d (store w) (Exists (''clicks:'' @ q @ '':'' @ l)) = None
      \<and> fault d (store w) (Hset (''clicks:'' @ q @ '':'' @ l) [(''count'', 1)]) = None \<longrightarrow>
      store_click_data d q l w =
        (Inr (), w\<lparr>store := (store w)(''clicks:'' @ q @ '':'' @ l \<mapsto> RHash [''count'' \<mapsto> 1]),
                  calls := calls w @ [Exists (''clicks:'' @ q @ '':'' @ l),
                                      Hset (''clicks:'' @ q @ '':'' @ l) [(''count'', 1)]]\<rparr>))
   \<and> (store w (''clicks:'' @ q @ '':'' @ l) = Some (RHash h) \<and> h ''count'' = Some c
      \<and> fault d (store w) (Exists (''clicks:'' @ q @ '':'' @ l)) = None
      \<and> fault d (store w) (Hincrby (''clicks:'' @ q @ '':'' @ l) ''count'' 1) = None \<longrightarrow>
      store_click_data d q l w =
        (Inr (), w\<lparr>store := (store w)(''clicks:'' @ q @ '':'' @ l \<mapsto> RHash (h(''count'' \<mapsto> c + 1))),
                  calls := calls w @ [Exists (''clicks:'' @ q @ '':'' @ l),
                                      Hincrby (''clicks:'' @ q @ '':'' @ l) ''count'' 1]\<rparr>))
   \<and> (store w (''clicks:'' @ q @ '':'' @ l) = None
      \<and> (\<forall>s. fault d s (Exists (''clicks:'' @ q @ '':'' @ l)) = None
             \<and> fault d s (Hset (''clicks:'' @ q @ '':'' @ l) [(''count'', 1)]) = None
             \<and> fault d s (Hincrby (''clicks:'' @ q @ '':'' @ l) ''count'' 1) = None) \<longrightarrow>
      store (snd (store_click_data d q l (snd (store_click_data d q l
        (snd (store_click_data d q l (snd (store_click_data d q l w))))))))
        (''clicks:'' @ q @ '':'' @ l) = Some (RHash [''count'' \<mapsto> 4]))"
proof (intro conjI impI)
  assume "store w (''clicks:'' @ q @ '':'' @ l) = None
      \<and> fault d (store w) (Exists (''clicks:'' @ q @ '':'' @ l)) = None
      \<and> fault d (store w) (Hset (''clicks:'' @ q @ '':'' @ l) [(''count'', 1)]) = None"
  then show "store_click_data d q l w =
        (Inr (), w\<lparr>store := (store w)(''clicks:'' @ q @ '':'' @ l \<mapsto> RHash [''count'' \<mapsto> 1]),
                  calls := calls w @ [Exists (''clicks:'' @ q @ '':'' @ l),
                                      Hset (''clicks:'' @ q @ '':'' @ l) [(''count'', 1)]]\<rparr>)"
    by (intro store_click_data_new) blast+
next
  assume "store w (''clicks:'' @ q @ '':'' @ l) = Some (RHash h) \<and> h ''count'' = Some c
      \<and> fault d (store w) (Exists (''clicks:'' @ q @ '':'' @ l)) = None
      \<and> fault d (store w) (Hincrby (''clicks:'' @ q @ '':'' @ l) ''count'' 1) = None"
  then show "store_click_data d q l w =
        (Inr (), w\<lparr>store := (store w)(''clicks:'' @ q @ '':'' @ l \<mapsto> RHash (h(''count'' \<mapsto> c + 1))),
                  calls := calls w @ [Exists (''clicks:'' @ q @ '':'' @ l),
                                      Hincrby (''clicks:'' @ q @ '':'' @ l) ''count'' 1]\<rparr>)"
    by (intro store_click_data_existing) blast+
next
  assume a: "store w (''clicks:'' @ q @ '':'' @ l) = None
      \<and> (\<forall>s. fault d s (Exists (''clicks:'' @ q @ '':'' @ l)) = None
             \<and> fault d s (Hset (''clicks:'' @ q @ '':'' @ l) [(''count'', 1)]) = None
             \<and> fault d s (Hincrby (''clicks:'' @ q @ '':'' @ l) ''count'' 1) = None)"
  then have f: "fault d s (Exists (''clicks:'' @ q @ '':'' @ l)) = None"
    "fault d s (Hset (''clicks:'' @ q @ '':'' @ l) [(''count'', 1)]) = None"
    "fault d s (Hincrby (''clicks:'' @ q @ '':'' @ l) ''count'' 1) = None" for s by blast+
  from a have a1: "store w (''clicks:'' @ q @ '':'' @ l) = None" by blast
  have "store (snd (store_click_data d q l w)) (''clicks:'' @ q @ '':'' @ l)
          = Some (RHash [''count'' \<mapsto> 1])"
    by (simp add: store_click_data_new [OF a1 f(1) f(2)])
  from store_click_data_next [OF store_click_data_next [OF store_click_data_next [OF this f(1) f(3)] f(1) f(3)] f(1) f(3)]
  show "store (snd (store_click_data d q l (snd (store_click_data d q l
        (snd (store_click_data d q l (snd (store_click_data d q l w))))))))
        (''clicks:'' @ q @ '':'' @ l) = Some (RHash [''count'' \<mapsto> 4])" by simp
qed

text \<open>
  C5 on the inputs of \<^verbatim>\<open>test_store_click_data_new\<close> and
  \<^verbatim>\<open>test_store_click_data_existing\<close>: a first click, a click on a count of 7, and
  four clicks in a row.
\<close>

theorem click_count_accumulates_witness:
  "store_click_data mock_deps ''test query'' ''http://test.com'' empty_world =
     (Inr (), \<lparr>store = [''clicks:test query:http://test.com'' \<mapsto> RHash [''count'' \<mapsto> 1]],
              ttl = Map.empty,
              calls = [Exists ''clicks:test query:http://test.com'',
                       Hset ''clicks:test query:http://test.com'' [(''count'', 1)]]\<rparr>)
   \<and> store_click_data mock_deps ''test query'' ''http://test.com''
       \<lparr>store = [''clicks:test query:http://test.com'' \<mapsto> RHash [''count'' \<mapsto> 7]],
        ttl = Map.empty, calls = []\<rparr> =
     (Inr (), \<lparr>store = [''clicks:test query:http://test.com'' \<mapsto> RHash [''count'' \<mapsto> 8]],
              ttl = Map.empty,
              calls = [Exists ''clicks:test query:http://test.com'',
                       Hincrby ''clicks:test query:http://test.com'' ''count'' 1]\<rparr>)
   \<and> store (snd (store_click_data mock_deps ''test query'' ''http://test.com''
        (snd (store_click_data mock_deps ''test query'' ''http://test.com''
          (snd (store_click_data mock_deps ''test query'' ''http://test.com''
            (snd (store_click_data mock_deps ''test query'' ''http://test.com'' empty_world))))))))
        ''clicks:test query:http://test.com'' = Some (RHash [''count'' \<mapsto> 4])"
proof -
  let ?w7 = "\<lparr>store = [''clicks:test query:http://test.com'' \<mapsto> RHash [''count'' \<mapsto> 7]],
        ttl = Map.empty, calls = []\<rparr>"
  have nf: "fault mock_deps s c = None" for s c by (simp add: mock_deps_def)
  have e: "store empty_world (''clicks:'' @ ''test query'' @ '':'' @ ''http://test.com'') = None"
    by (simp add: empty_world_def)
  have s7: "store ?w7 (''clicks:'' @ ''test query'' @ '':'' @ ''http://test.com'')
      = Some (RHash [''count'' \<mapsto> 7]) \<and> [''count'' \<mapsto> (7::int)] ''count'' = Some 7"
    by simp
  note t1 = click_count_accumulates [of empty_world "''test query''" "''http://test.com''" mock_deps]
  note t2 = click_count_accumulates [of ?w7 "''test query''" "''http://test.com''" mock_deps
      "[''count'' \<mapsto> 7]" 7]
  from t1 [THEN conjunct1] e nf
  have a: "store_click_data mock_deps ''test query'' ''http://test.com'' empty_world =
     (Inr (), \<lparr>store = [''clicks:test query:http://test.com'' \<mapsto> RHash [''count'' \<mapsto> 1]],
              ttl = Map.empty,
              calls = [Exists ''clicks:test query:http://test.com'',
                       Hset ''clicks:test query:http://test.com'' [(''count'', 1)]]\<rparr>)"
    by (simp add: empty_world_def)
  from t1 [THEN conjunct2, THEN conjunct2] e nf
  have c: "store (snd (store_click_data mock_deps ''test query'' ''http://test.com''
        (snd (store_click_data mock_deps ''test query'' ''http://test.com''
          (snd (store_click_data mock_deps ''test query'' ''http://test.com''
            (snd (store_click_data mock_deps ''test query'' ''http://test.com'' empty_world))))))))
        ''clicks:test query:http://test.com'' = Some (RHash [''count'' \<mapsto> 4])"
    by simp
  from t2 [THEN conjunct2, THEN conjunct1] s7 nf
  have b: "store_click_data mock_deps ''test query'' ''http://test.com'' ?w7 =
     (Inr (), \<lparr>store = [''clicks:test query:http://test.com'' \<mapsto> RHash [''count'' \<mapsto> 8]],
              ttl = Map.empty,
              calls = [Exists ''clicks:test query:http://test.com'',
                       Hincrby ''clicks:test query:http://test.com'' ''count'' 1]\<rparr>)"
    by simp
  from a b c show ?thesis by blast
qed

subsection \<open>Invalid pages\<close>

text \<open>
  C6: for every page below 1 the \<^verbatim>\<open>/recipes\<close> endpoint answers with the fixed
  validation message and leaves the world as it was: no encoder call, no search call, no
  Redis command. The answer does not depend on the collaborators, so it is the same when
  every one of them would fail. The failures of the cache and of the search lie on the
  other path only: for every page from 1 on, the endpoint first issues the \<^verbatim>\<open>get\<close> of
  the cache key.
\<close>

theorem invalid_page_rejected:
  "(page < 1 \<longrightarrow>
      get_recipes d q page w = (ErrorResponse ''Page number must be greater than 0'', w))
   \<and> (1 \<le> page \<longrightarrow>
      (\<exists>rest. calls (snd (get_recipes d q page w)) = calls w @ Get (''search_cache:'' @ q) # rest))"
  using get_recipes_by_query_calls [of d q page 3 w]
  by (simp add: get_recipes_world) (simp add: get_recipes_def)

text \<open>
  C6 at page 0 with every collaborator failing, as in \<^verbatim>\<open>test_get_recipes_invalid_page\<close>;
  the same collaborators at page 1 give the failure of the cache lookup instead.
\<close>

theorem invalid_page_rejected_witness:
  "get_recipes all_down ''test query'' 0 empty_world =
     (ErrorResponse ''Page number must be greater than 0'', empty_world)
   \<and> calls (snd (get_recipes all_down ''test query'' 0 empty_world)) = []
   \<and> (\<exists>rest. calls (snd (get_recipes all_down ''test query'' 1 empty_world))
         = Get ''search_cache:test query'' # rest)
   \<and> get_recipes all_down ''test query'' 1 empty_world =
     (ErrorResponse ''Connection refused'', empty_world\<lparr>calls := [Get ''search_cache:test query'']\<rparr>)"
proof -
  have z: "(0::int) < 1" and o: "(1::int) \<le> 1" by simp_all
  from invalid_page_rejected [of 0 all_down "''test query''" empty_world, THEN conjunct1] z
  have a: "get_recipes all_down ''test query'' 0 empty_world =
     (ErrorResponse ''Page number must be greater than 0'', empty_world)" by blast
  from invalid_page_rejected [of 1 all_down "''test query''" empty_world, THEN conjunct2] o
  have b: "\<exists>rest. calls (snd (get_recipes all_down ''test query'' 1 empty_world))
         = Get ''search_cache:test query'' # rest"
    by (simp add: empty_world_def)
  have c: "get_recipes all_down ''test query'' 1 empty_world =
     (ErrorResponse ''Connection refused'', empty_world\<lparr>calls := [Get ''search_cache:test query'']\<rparr>)"
    by (simp add: get_recipes_def get_recipes_by_query_def get_cached_results_def redis_get_def
        all_down_def empty_world_def log_call_def Let_def)
  from a have "calls (snd (get_recipes all_down ''test query'' 0 empty_world)) = []"
    by (simp add: empty_world_def)
  with a b c show ?thesis by blast
qed

subsection \<open>Cache keys\<close>

text \<open>
  C7: the lookup reads, and the write sets, the key \<^verbatim>\<open>"search_cache:" + query_text\<close>
  with the query text unchanged; a successful write leaves its payload under that key;
  two different query strings have different keys, and a write for one leaves the entry
  of the other as it was.
\<close>

theorem cache_key_exact:
  "calls (snd (get_cached_results d q w)) = calls w @ [Get (''search_cache:'' @ q)]
   \<and> calls (snd (cache_results d q rs w)) = calls w @ [Setex (''search_cache:'' @ q) 3 (py_str d rs)]
   \<and> (fault d (store w) (Setex (''search_cache:'' @ q) 3 (py_str d rs)) = None \<longrightarrow>
        store (snd (cache_results d q rs w)) (''search_cache:'' @ q) = Some (RString (py_str d rs)))
   \<and> (q \<noteq> q' \<longrightarrow>
        ''search_cache:'' @ q \<noteq> ''search_cache:'' @ q'
        \<and> store (snd (cache_results d q rs w)) (''search_cache:'' @ q') = store w (''search_cache:'' @ q'))"
proof (intro conjI impI)
  show "calls (snd (get_cached_results d q w)) = calls w @ [Get (''search_cache:'' @ q)]"
    by (simp add: get_cached_results_world calls_log_call)
  show "calls (snd (cache_results d q rs w)) = calls w @ [Setex (''search_cache:'' @ q) 3 (py_str d rs)]"
    by (rule cache_results_world)
  show "store (snd (cache_results d q rs w)) (''search_cache:'' @ q) = Some (RString (py_str d rs))"
    if "fault d (store w) (Setex (''search_cache:'' @ q) 3 (py_str d rs)) = None"
    using that by (simp add: cache_results_ok)
  assume ne: "q \<noteq> q'"
  then show k: "''search_cache:'' @ q \<noteq> ''search_cache:'' @ q'" by simp
  then have "''search_cache:'' @ q' \<noteq> ''search_cache:'' @ q" by (rule not_sym)
  then show "store (snd (cache_results d q rs w)) (''search_cache:'' @ q') = store w (''search_cache:'' @ q')"
    by (rule cache_results_world)
qed

text \<open>
  C7 on the queries \<^verbatim>\<open>"Pasta"\<close> and \<^verbatim>\<open>"pasta"\<close>: after a write for each, both
  entries exist, each with its own payload.
\<close>

theorem cache_key_exact_witness:
  "store (snd (cache_results mock_deps ''pasta'' [] (snd (cache_results mock_deps ''Pasta'' MOCK_CACHED_RESULTS empty_world))))
      ''search_cache:Pasta'' = Some (RString ''[recipe 1, recipe 2, recipe 3]'')
   \<and> store (snd (cache_results mock_deps ''pasta'' [] (snd (cache_results mock_deps ''Pasta'' MOCK_CACHED_RESULTS empty_world))))
      ''search_cache:pasta'' = Some (RString ''[]'')
   \<and> ''search_cache:Pasta'' \<noteq> ''search_cache:pasta''"
proof -
  let ?w1 = "snd (cache_results mock_deps ''Pasta'' MOCK_CACHED_RESULTS empty_world)"
  have nf: "fault mock_deps s c = None" for s c by (simp add: mock_deps_def)
  have ne: "''pasta'' \<noteq> ''Pasta''" by simp
  have s1: "py_str mock_deps MOCK_CACHED_RESULTS = ''[recipe 1, recipe 2, recipe 3]''"
    by (simp add: mock_deps_def mock_str_def MOCK_CACHED_RESULTS_def)
  have s2: "py_str mock_deps [] = ''[]''"
    by (simp add: mock_deps_def mock_str_def)
  note t1 = cache_key_exact [of mock_deps "''Pasta''" empty_world MOCK_CACHED_RESULTS "''pasta''"]
  note t2 = cache_key_exact [of mock_deps "''pasta''" ?w1 "[]" "''Pasta''"]
  from t1 [THEN conjunct2, THEN conjunct2, THEN conjunct1] nf s1
  have a: "store ?w1 ''search_cache:Pasta'' = Some (RString ''[recipe 1, recipe 2, recipe 3]'')"
    by simp
  from t2 [THEN conjunct2, THEN conjunct2, THEN conjunct1] nf s2
  have b: "store (snd (cache_results mock_deps ''pasta'' [] ?w1)) ''search_cache:pasta'' = Some (RString ''[]'')"
    by simp
  from t2 [THEN conjunct2, THEN conjunct2, THEN conjunct2] ne
  have c: "''search_cache:pasta'' \<noteq> ''search_cache:Pasta''
      \<and> store (snd (cache_results mock_deps ''pasta'' [] ?w1)) ''search_cache:Pasta'' = store ?w1 ''search_cache:Pasta''"
    by simp
  from a b c show ?thesis by simp
qed

subsection \<open>Failures of the encoder, the search and the click store\<close>

text \<open>
  C8: on the cache-miss path an exception of the encoder, or of the search after the
  encoder returned, is the result of \<^verbatim>\<open>get_recipes_by_query\<close>, and \<^verbatim>\<open>/recipes\<close>
  (page at least 1) answers \<^verbatim>\<open>{"error": str(e)}\<close>. An exception of
  \<^verbatim>\<open>store_click_data\<close>, for instance of its first Redis command, makes \<^verbatim>\<open>/click\<close>
  answer \<^verbatim>\<open>{"status": "error", "message": str(e)}\<close>.
\<close>

theorem failures_become_error_responses:
  "(get_cached_results d q w = (Inr cached, w1) \<and> \<not> truthy cached \<and> encoder d q = Inl e \<longrightarrow>
      get_recipes_by_query d q p n w = (Inl e, log_call (Encode q) w1)
      \<and> (1 \<le> p \<longrightarrow> get_recipes d q p w = (ErrorResponse (exn_str e), log_call (Encode q) w1)))
   \<and> (get_cached_results d q w = (Inr cached, w1) \<and> \<not> truthy cached
        \<and> encoder d q = Inr v \<and> backend_search d v = Inl e \<longrightarrow>
      get_recipes_by_query d q p n w = (Inl e, log_call (Search v) (log_call (Encode q) w1))
      \<and> (1 \<le> p \<longrightarrow> get_recipes d q p w =
            (ErrorResponse (exn_str e), log_call (Search v) (log_call (Encode q) w1))))
   \<and> (store_click_data d (query cd) (link cd) w = (Inl e, w') \<longrightarrow>
        record_click d cd w = (ClickResponse ''error'' (exn_str e), w'))
   \<and> (fault d (store w) (Exists (''clicks:'' @ query cd @ '':'' @ link cd)) = Some e \<longrightarrow>
        fst (record_click d cd w) = ClickResponse ''error'' (exn_str e))"
proof (intro conjI impI)
  assume a: "get_cached_results d q w = (Inr cached, w1) \<and> \<not> truthy cached \<and> encoder d q = Inl e"
  then have a1: "get_cached_results d q w = (Inr cached, w1)" and a2: "\<not> truthy cached"
    and a3: "encoder d q = Inl e" by blast+
  show r: "get_recipes_by_query d q p n w = (Inl e, log_call (Encode q) w1)" for p n
    by (simp add: get_recipes_by_query_miss [OF a1 a2] search_and_cache_encoder_fails [OF a3])
  show "get_recipes d q p w = (ErrorResponse (exn_str e), log_call (Encode q) w1)" if "1 \<le> p"
    using that r [of p 3] by (rule get_recipes_failure)
next
  assume a: "get_cached_results d q w = (Inr cached, w1) \<and> \<not> truthy cached
        \<and> encoder d q = Inr v \<and> backend_search d v = Inl e"
  then have a1: "get_cached_results d q w = (Inr cached, w1)" and a2: "\<not> truthy cached"
    and a3: "encoder d q = Inr v" and a4: "backend_search d v = Inl e" by blast+
  show r: "get_recipes_by_query d q p n w = (Inl e, log_call (Search v) (log_call (Encode q) w1))" for p n
    by (simp add: get_recipes_by_query_miss [OF a1 a2] search_and_cache_backend_fails [OF a3 a4])
  show "get_recipes d q p w = (ErrorResponse (exn_str e), log_call (Search v) (log_call (Encode q) w1))"
    if "1 \<le> p"
    using that r [of p 3] by (rule get_recipes_failure)
next
  assume "store_click_data d (query cd) (link cd) w = (Inl e, w')"
  then show "record_click d cd w = (ClickResponse ''error'' (exn_str e), w')"
    by (rule record_click_failure)
next
  assume "fault d (store w) (Exists (''clicks:'' @ query cd @ '':'' @ link cd)) = Some e"
  from store_click_data_exists_fault [OF this]
  show "fst (record_click d cd w) = ClickResponse ''error'' (exn_str e)"
    by (simp add: record_click_def)
qed

text \<open>
  C8 with a failing encoder, a failing search and an unreachable store, as in
  \<^verbatim>\<open>test_get_recipes_error\<close> and \<^verbatim>\<open>test_record_click_error\<close>.
\<close>

theorem failures_become_error_responses_witness:
  "get_recipes encoder_down ''test query'' 1 empty_world =
     (ErrorResponse ''Test error'',
      empty_world\<lparr>calls := [Get ''search_cache:test query'', Encode ''test query'']\<rparr>)
   \<and> get_recipes backend_down ''test query'' 1 empty_world =
     (ErrorResponse ''Test error'',
      empty_world\<lparr>calls := [Get ''search_cache:test query'', Encode ''test query'', Search [1, 2, 3]]\<rparr>)
   \<and> record_click all_down \<lparr>query = ''test query'', link = ''http://test.com''\<rparr> empty_world =
     (ClickResponse ''error'' ''Connection refused'',
      empty_world\<lparr>calls := [Exists ''clicks:test query:http://test.com'']\<rparr>)"
proof -
  let ?w1 = "log_call (Get ''search_cache:test query'') empty_world"
  let ?cd = "\<lparr>query = ''test query'', link = ''http://test.com''\<rparr>"
  let ?w' = "empty_world\<lparr>calls := [Exists ''clicks:test query:http://test.com'']\<rparr>"
  have g1: "get_cached_results encoder_down ''test query'' empty_world = (Inr None, ?w1)
      \<and> \<not> truthy (None :: pydict list option)
      \<and> encoder encoder_down ''test query'' = Inl (OtherException ''Test error'')"
    by (simp add: get_cached_results_def redis_get_def encoder_down_def mock_deps_def
        empty_world_def Let_def)
  have g2: "get_cached_results backend_down ''test query'' empty_world = (Inr None, ?w1)
      \<and> \<not> truthy (None :: pydict list option)
      \<and> encoder backend_down ''test query'' = Inr [1, 2, 3]
      \<and> backend_search backend_down [1, 2, 3] = Inl (OtherException ''Test error'')"
    by (simp add: get_cached_results_def redis_get_def backend_down_def mock_deps_def
        empty_world_def Let_def)
  have g3: "store_click_data all_down (query ?cd) (link ?cd) empty_world
      = (Inl (OtherException ''Connection refused''), ?w')"
    by (simp add: store_click_data_def redis_exists_def all_down_def empty_world_def Let_def
        log_call_def)
  have g4: "fault all_down (store empty_world) (Exists (''clicks:'' @ query ?cd @ '':'' @ link ?cd))
      = Some (OtherException ''Connection refused'')"
    by (simp add: all_down_def)
  note t1 = failures_become_error_responses [of encoder_down "''test query''" empty_world None ?w1
      "OtherException ''Test error''" 1 3]
  note t2 = failures_become_error_responses [of backend_down "''test query''" empty_world None ?w1
      "OtherException ''Test error''" 1 3 "[1, 2, 3]"]
  note t3 = failures_become_error_responses [of all_down "''test query''" empty_world None ?w1
      "OtherException ''Connection refused''" 1 3 "[1, 2, 3]" ?cd ?w']
  from t1 [THEN conjunct1] g1
  have a: "get_recipes encoder_down ''test query'' 1 empty_world =
     (ErrorResponse ''Test error'',
      empty_world\<lparr>calls := [Get ''search_cache:test query'', Encode ''test query'']\<rparr>)"
    by (simp add: log_call_def empty_world_def)
  from t2 [THEN conjunct2, THEN conjunct1] g2
  have b: "get_recipes backend_down ''test query'' 1 empty_world =
     (ErrorResponse ''Test error'',
      empty_world\<lparr>calls := [Get ''search_cache:test query'', Encode ''test query'', Search [1, 2, 3]]\<rparr>)"
    by (simp add: log_call_def empty_world_def)
  from t3 [THEN conjunct2, THEN conjunct2, THEN conjunct1] g3
  have c: "record_click all_down ?cd empty_world =
     (ClickResponse ''error'' ''Connection refused'', ?w')"
    by simp
  from t3 [THEN conjunct2, THEN conjunct2, THEN conjunct2] g4
  have d: "fst (record_click all_down ?cd empty_world) = ClickResponse ''error'' ''Connection refused''"
    by simp
  from a b c d show ?thesis by simp
qed

subsection \<open>An empty cached list\<close>

text \<open>
  C9: when the cached payload deserializes to the empty list, the lookup returns that
  empty list, and \<^verbatim>\<open>get_recipes_by_query\<close> continues with the search exactly as it
  does for a world \<open>w0\<close> with no entry under the key: after the \<^verbatim>\<open>get\<close> the encoder is
  called, and when it returns, the search is called.
\<close>

theorem empty_cached_list_is_miss:
  assumes "fault d (store w) (Get (''search_cache:'' @ q)) = None"
    and "store w (''search_cache:'' @ q) = Some (RString payload)"
    and "payload \<noteq> []" and "py_eval d payload = Inr []"
  shows "get_cached_results d q w = (Inr (Some []), w\<lparr>calls := calls w @ [Get (''search_cache:'' @ q)]\<rparr>)
         \<and> get_recipes_by_query d q p n w =
           search_and_cache d q p n (w\<lparr>calls := calls w @ [Get (''search_cache:'' @ q)]\<rparr>)
         \<and> (fault d (store w0) (Get (''search_cache:'' @ q)) = None
              \<and> store w0 (''search_cache:'' @ q) = None \<longrightarrow>
            get_recipes_by_query d q p n w0 =
              search_and_cache d q p n (w0\<lparr>calls := calls w0 @ [Get (''search_cache:'' @ q)]\<rparr>))
         \<and> (\<exists>rest. calls (snd (get_recipes_by_query d q p n w)) =
                calls w @ Get (''search_cache:'' @ q) # Encode q # rest
              \<and> (\<forall>v. encoder d q = Inr v \<longrightarrow> (\<exists>rest'. rest = Search v # rest')))"
proof -
  let ?k = "''search_cache:'' @ q"
  let ?w1 = "w\<lparr>calls := calls w @ [Get ?k]\<rparr>"
  have g: "get_cached_results d q w = (Inr (Some []), ?w1)"
    using get_cached_results_hit [OF assms] by (simp add: log_call_def)
  then have m: "get_recipes_by_query d q p n w = search_and_cache d q p n ?w1"
    by (rule get_recipes_by_query_miss) simp
  have ab: "get_recipes_by_query d q p n w0 = search_and_cache d q p n (w0\<lparr>calls := calls w0 @ [Get ?k]\<rparr>)"
    if "fault d (store w0) (Get ?k) = None \<and> store w0 ?k = None"
  proof -
    from that have "get_cached_results d q w0 = (Inr None, log_call (Get ?k) w0)"
      by (intro get_cached_results_absent) blast+
    then have "get_recipes_by_query d q p n w0 = search_and_cache d q p n (log_call (Get ?k) w0)"
      by (rule get_recipes_by_query_miss) simp
    then show ?thesis by (simp add: log_call_def)
  qed
  from search_and_cache_calls [of d q p n ?w1]
  have tr: "\<exists>rest. calls (snd (get_recipes_by_query d q p n w)) = calls w @ Get ?k # Encode q # rest
              \<and> (\<forall>v. encoder d q = Inr v \<longrightarrow> (\<exists>rest'. rest = Search v # rest'))"
    by (simp add: m)
  from g m ab tr show ?thesis by blast
qed

text \<open>
  C9 on the mocked collaborators with the payload \<^verbatim>\<open>"[]"\<close> in the cache, next to the
  world with an empty cache.
\<close>

theorem empty_cached_list_is_miss_witness:
  "get_recipes_by_query mock_deps ''test query'' 1 3 (cached_world ''[]'') =
     search_and_cache mock_deps ''test query'' 1 3
       ((cached_world ''[]'')\<lparr>calls := [Get ''search_cache:test query'']\<rparr>)
   \<and> get_recipes_by_query mock_deps ''test query'' 1 3 empty_world =
     search_and_cache mock_deps ''test query'' 1 3
       (empty_world\<lparr>calls := [Get ''search_cache:test query'']\<rparr>)
   \<and> calls (snd (get_recipes_by_query mock_deps ''test query'' 1 3 (cached_world ''[]''))) =
       [Get ''search_cache:test query'', Encode ''test query'', Search [1, 2, 3],
        Setex ''search_cache:test query'' 3 ''[recipe 1, recipe 2, recipe 3]'']"
proof -
  let ?w = "cached_world ''[]''"
  have h1: "fault mock_deps (store ?w) (Get (''search_cache:'' @ ''test query'')) = None"
    by (simp add: mock_deps_def)
  have h2: "store ?w (''search_cache:'' @ ''test query'') = Some (RString ''[]'')"
    by (simp add: cached_world_def)
  have h3: "''[]'' \<noteq> []" by simp
  have h4: "py_eval mock_deps ''[]'' = Inr []"
    by (simp add: mock_deps_def mock_eval_def)
  have h0: "fault mock_deps (store empty_world) (Get (''search_cache:'' @ ''test query'')) = None
      \<and> store empty_world (''search_cache:'' @ ''test query'') = None"
    by (simp add: mock_deps_def empty_world_def)
  have c: "calls ?w = []" "calls empty_world = []" by (simp_all add: cached_world_def empty_world_def)
  note t = empty_cached_list_is_miss [OF h1 h2 h3 h4, of 1 3 empty_world]
  from t [THEN conjunct2, THEN conjunct1]
  have a: "get_recipes_by_query mock_deps ''test query'' 1 3 ?w =
     search_and_cache mock_deps ''test query'' 1 3 (?w\<lparr>calls := [Get ''search_cache:test query'']\<rparr>)"
    by (simp add: c)
  from t [THEN conjunct2, THEN conjunct2, THEN conjunct1] h0
  have b: "get_recipes_by_query mock_deps ''test query'' 1 3 empty_world =
     search_and_cache mock_deps ''test query'' 1 3 (empty_world\<lparr>calls := [Get ''search_cache:test query'']\<rparr>)"
    by (simp add: c)
  have "calls (snd (search_and_cache mock_deps ''test query'' 1 3 (?w\<lparr>calls := [Get ''search_cache:test query'']\<rparr>))) =
       [Get ''search_cache:test query'', Encode ''test query'', Search [1, 2, 3],
        Setex ''search_cache:test query'' 3 ''[recipe 1, recipe 2, recipe 3]'']"
    by (simp add: search_and_cache_def model_encode_def ft_search_def cache_results_def
      redis_setex_def CACHE_EXPIRATION_def mock_deps_def cached_world_def log_call_def Let_def
      collect_results_map mock_items)
     (simp add: mock_str_def MOCK_CACHED_RESULTS_def)
  with a b show ?thesis by simp
qed

subsection \<open>The shape of result items\<close>

text \<open>
  C10: every item of the list built from the documents has exactly the keys
  \<^verbatim>\<open>title\<close> and \<^verbatim>\<open>link\<close>, in that order; the list has one item per document, in
  the order of the documents, holding the document's title and link, or the default
  strings where the document lacks one; and every item of a page that
  \<^verbatim>\<open>get_recipes_by_query\<close> returns on the cache-miss path has exactly those two keys.
\<close>

theorem result_items_have_title_and_link:
  "(\<forall>it \<in> set (collect_results [] docs). map fst it = [''title'', ''link''])
   \<and> length (collect_results [] docs) = length docs
   \<and> (\<forall>i < length docs. collect_results [] docs ! i =
         [(''title'', (case doc_title (docs ! i) of None \<Rightarrow> ''No title available'' | Some t \<Rightarrow> t)),
          (''link'', (case doc_link (docs ! i) of None \<Rightarrow> ''No link available'' | Some l \<Rightarrow> l))])
   \<and> (get_cached_results d q w = (Inr cached, w1) \<and> \<not> truthy cached
        \<and> get_recipes_by_query d q p n w = (Inr page, w') \<longrightarrow>
        (\<forall>it \<in> set page. map fst it = [''title'', ''link'']))"
proof (intro conjI impI)
  show "\<forall>it \<in> set (collect_results [] docs). map fst it = [''title'', ''link'']"
    by (auto simp: collect_results_map doc_item_keys)
  show "length (collect_results [] docs) = length docs"
    by (simp add: collect_results_map)
  show "\<forall>i < length docs. collect_results [] docs ! i =
         [(''title'', (case doc_title (docs ! i) of None \<Rightarrow> ''No title available'' | Some t \<Rightarrow> t)),
          (''link'', (case doc_link (docs ! i) of None \<Rightarrow> ''No link available'' | Some l \<Rightarrow> l))]"
    by (simp add: collect_results_map doc_item_def Let_def)
next
  assume a: "get_cached_results d q w = (Inr cached, w1) \<and> \<not> truthy cached
        \<and> get_recipes_by_query d q p n w = (Inr page, w')"
  then have a1: "get_cached_results d q w = (Inr cached, w1)" and a2: "\<not> truthy cached"
    and a3: "get_recipes_by_query d q p n w = (Inr page, w')" by blast+
  from get_recipes_by_query_miss [OF a1 a2, of p n] a3
  have "search_and_cache d q p n w1 = (Inr page, w')" by simp
  then obtain docs' where "page = py_slice (map doc_item docs') ((p - 1) * n) ((p - 1) * n + n)"
    by (auto simp: search_and_cache_def model_encode_def ft_search_def Let_def collect_results_map
        split: sum.splits prod.splits exn.splits)
  with set_py_slice [of "map doc_item docs'" "(p - 1) * n" "(p - 1) * n + n"]
  show "\<forall>it \<in> set page. map fst it = [''title'', ''link'']"
    by (auto simp: doc_item_keys)
qed

text \<open>
  C10 on a document without a title and one without a link, and on the mocked search.
\<close>

theorem result_items_have_title_and_link_witness:
  "collect_results [] [\<lparr>doc_title = None, doc_link = Some ''http://test1.com''\<rparr>,
                      \<lparr>doc_title = Some ''Test Recipe 2'', doc_link = None\<rparr>] ! 0
     = [(''title'', ''No title available''), (''link'', ''http://test1.com'')]
   \<and> collect_results [] [\<lparr>doc_title = None, doc_link = Some ''http://test1.com''\<rparr>,
                      \<lparr>doc_title = Some ''Test Recipe 2'', doc_link = None\<rparr>] ! 1
     = [(''title'', ''Test Recipe 2''), (''link'', ''No link available'')]
   \<and> map fst (hd (collect_results [] MOCK_REDIS_DOCS)) = [''title'', ''link'']
   \<and> get_recipes_by_query mock_deps ''test query'' 1 3 empty_world
       = (Inr MOCK_CACHED_RESULTS,
          \<lparr>store = [''search_cache:test query'' \<mapsto> RString ''[recipe 1, recipe 2, recipe 3]''],
           ttl = [''search_cache:test query'' \<mapsto> 3],
           calls = [Get ''search_cache:test query'', Encode ''test query'', Search [1, 2, 3],
                    Setex ''search_cache:test query'' 3 ''[recipe 1, recipe 2, recipe 3]'']\<rparr>)
   \<and> map fst (hd MOCK_CACHED_RESULTS) = [''title'', ''link'']"
proof -
  let ?docs = "[\<lparr>doc_title = None, doc_link = Some ''http://test1.com''\<rparr>,
                \<lparr>doc_title = Some ''Test Recipe 2'', doc_link = None\<rparr>]"
  let ?w' = "\<lparr>store = [''search_cache:test query'' \<mapsto> RString ''[recipe 1, recipe 2, recipe 3]''],
           ttl = [''search_cache:test query'' \<mapsto> 3],
           calls = [Get ''search_cache:test query'', Encode ''test query'', Search [1, 2, 3],
                    Setex ''search_cache:test query'' 3 ''[recipe 1, recipe 2, recipe 3]'']\<rparr>"
  note t1 = result_items_have_title_and_link [of ?docs]
  from t1 [THEN conjunct2, THEN conjunct2, THEN conjunct1, rule_format, of 0]
  have a: "collect_results [] ?docs ! 0 = [(''title'', ''No title available''), (''link'', ''http://test1.com'')]"
    by simp
  from t1 [THEN conjunct2, THEN conjunct2, THEN conjunct1, rule_format, of 1]
  have b: "collect_results [] ?docs ! 1 = [(''title'', ''Test Recipe 2''), (''link'', ''No link available'')]"
    by simp
  have m: "hd (collect_results [] MOCK_REDIS_DOCS) \<in> set (collect_results [] MOCK_REDIS_DOCS)"
    by (simp add: collect_results_map MOCK_REDIS_DOCS_def)
  from result_items_have_title_and_link [of MOCK_REDIS_DOCS, THEN conjunct1] m
  have c: "map fst (hd (collect_results [] MOCK_REDIS_DOCS)) = [''title'', ''link'']"
    by blast
  have r: "get_recipes_by_query mock_deps ''test query'' 1 3 empty_world = (Inr MOCK_CACHED_RESULTS, ?w')"
    by (rule mock_search_run)
  have h: "hd MOCK_CACHED_RESULTS \<in> set MOCK_CACHED_RESULTS" by (simp add: MOCK_CACHED_RESULTS_def)
  from result_items_have_title_and_link [of docs mock_deps "''test query''" empty_world None
      "log_call (Get ''search_cache:test query'') empty_world" 1 3 MOCK_CACHED_RESULTS ?w',
      THEN conjunct2, THEN conjunct2, THEN conjunct2] mock_absent r h
  have e: "map fst (hd MOCK_CACHED_RESULTS) = [''title'', ''link'']"
    by simp
  from a b c r e show ?thesis by simp
qed

end
